theory Spec2Isabelle
  imports Complex_Main
begin

section \<open>Values shared by the models and the routes\<close>

text \<open>
  A JavaScript \<^verbatim>\<open>Date\<close> is its \<^verbatim>\<open>valueOf()\<close>: milliseconds since the epoch.
  \<^verbatim>\<open>new Date(x)\<close> of a missing or unparsable \<^verbatim>\<open>x\<close> is the Invalid Date (NaN); such a
  value is \<open>None\<close> of type \<open>date option\<close>. An ObjectId generated by the store is a
  natural number taken from a counter; the id of the authenticated user is a string.
\<close>

type_synonym date = int
type_synonym object_id = nat

datatype sync_status = Initiated | In_progress | Completed | Failed | Cancelled | Partial

datatype severity = Low | Medium | High | Critical

datatype conflict_type =
  Version_mismatch | Concurrent_modification | Data_corruption | Schema_mismatch

datatype resolution = Server_wins | Client_wins | Merge | Manual_review | Skip

datatype record_sync_status = Pending | Synced | Sync_failed | In_conflict

text \<open>
  A record uploaded by the client: a JSON object. The fields the sync routes read are
  spelled out, each optional as in JSON; \<open>i_body\<close> stands for the rest of the payload,
  which the routes copy and never inspect. The three dates are what
  \<^verbatim>\<open>new Date(item.timestamp)\<close>, \<^verbatim>\<open>new Date(item.createdAt)\<close> and
  \<^verbatim>\<open>new Date(item.lastModified)\<close> evaluate to.
\<close>

record item =
  i_uid :: "string option"
  i_id :: "string option"
  i_sessionId :: "string option"
  i_activityType :: "string option"
  i_timestamp :: "date option"
  i_patientId :: "string option"
  i_createdAt :: "date option"
  i_lastModified :: "date option"
  i_firstName :: "string option"
  i_lastName :: "string option"
  i_facility :: "string option"
  i_state :: "string option"
  i_contactInfo :: "string option"
  i_body :: string

text \<open>\<^verbatim>\<open>item._id || item.id\<close>: the empty string is falsy, as is a missing field.\<close>

definition truthy :: "string option \<Rightarrow> bool" where
  "truthy v = (case v of None \<Rightarrow> False | Some s \<Rightarrow> s \<noteq> [])"

definition item_ref :: "item \<Rightarrow> string option" where
  "item_ref it = (if truthy (i_uid it) then i_uid it else i_id it)"

section \<open>The stored documents (models/Activity.js, the Diagnosis model, the user)\<close>

record activity_doc =
  a_oid :: object_id
  a_userId :: string
  a_deviceId :: string
  a_sessionId :: "string option"
  a_activityType :: "string option"
  a_timestamp :: date
  a_syncStatus :: record_sync_status
  a_syncedAt :: "date option"
  a_updatedAt :: date
  a_body :: string

record diagnosis_doc =
  d_oid :: object_id
  d_userId :: string
  d_deviceId :: string
  d_sessionId :: "string option"
  d_patientId :: "string option"
  d_createdAt :: date
  d_lastModified :: date
  d_syncStatus :: record_sync_status
  d_syncedAt :: "date option"
  d_updatedAt :: date
  d_body :: string

text \<open>
  Modelled from the spec: the User schema is not among the sources. The profile is a
  synchronizable record that carries an \<^verbatim>\<open>updatedAt\<close> timestamp; the sync routes read
  and write the five profile fields below and nothing else of it.
\<close>

record user_doc =
  u_oid :: string
  u_firstName :: "string option"
  u_lastName :: "string option"
  u_facility :: "string option"
  u_state :: "string option"
  u_contactInfo :: "string option"
  u_updatedAt :: date

section \<open>The Session Ledger (models/SyncLog.js)\<close>

record progress_rec =
  totalItems :: int
  processedItems :: int
  successfulItems :: int
  failedItems :: int
  skippedItems :: int
  percentage :: int

record error_entry =
  e_timestamp :: date
  e_code :: string
  e_message :: string
  e_severity :: severity
  e_dataType :: "string option"
  e_itemId :: "string option"
  e_retryable :: bool
  e_stack :: "string option"

record conflict_entry =
  c_itemId :: "string option"
  c_dataType :: string
  c_conflictType :: conflict_type
  c_resolution :: resolution
  c_resolvedAt :: "date option"
  c_resolvedBy :: "string option"
  c_localVersion :: "item option"
  c_serverVersion :: "diagnosis_doc option"
  c_mergedVersion :: "string option"

record sync_log =
  sl_oid :: object_id
  sl_userId :: string
  sl_deviceId :: string
  sl_sessionId :: string
  sl_syncType :: string
  sl_operation :: string
  sl_dataTypes :: "string list"
  status :: sync_status
  progress :: progress_rec
  startedAt :: date
  completedAt :: "date option"
  duration :: "int option"
  errors :: "error_entry list"
  conflicts :: "conflict_entry list"
  sl_updatedAt :: date

text \<open>
  \<^verbatim>\<open>Math.round\<close> rounds to the nearest integer, a half upwards. The quotient
  \<^verbatim>\<open>(processedItems / totalItems) * 100\<close> is taken over the reals: the rounding error of
  the double-precision division is not modelled.
\<close>

definition Math_round :: "real \<Rightarrow> int" where
  "Math_round x = \<lfloor>x + 1 / 2\<rfloor>"

definition recompute_percentage :: "progress_rec \<Rightarrow> progress_rec" where
  "recompute_percentage p =
     (if totalItems p > 0
      then p\<lparr>percentage :=
               Math_round ((real_of_int (processedItems p) / real_of_int (totalItems p)) * 100)\<rparr>
      else p)"

text \<open>
  \<^verbatim>\<open>syncLogSchema.pre('save')\<close>. \<^verbatim>\<open>startedAt\<close> is always set (schema default), so the
  first test is on \<^verbatim>\<open>completedAt\<close> alone. \<open>save\<close> is the document after the hook: what
  the store then holds. The schema's validators (\<^verbatim>\<open>min\<close>, \<^verbatim>\<open>max\<close>, \<^verbatim>\<open>required\<close>,
  \<^verbatim>\<open>enum\<close>, \<^verbatim>\<open>trim\<close>) belong to the database library and are not modelled: a save of
  the session never rejects here.
\<close>

definition save :: "date \<Rightarrow> sync_log \<Rightarrow> sync_log" where
  "save now s =
     (let s1 = (case completedAt s of
                  Some c \<Rightarrow> s\<lparr>duration := Some (c - startedAt s)\<rparr>
                | None \<Rightarrow> s);
          s2 = s1\<lparr>progress := recompute_percentage (progress s1)\<rparr>
      in s2\<lparr>sl_updatedAt := now\<rparr>)"

definition markCompleted :: "sync_status \<Rightarrow> date \<Rightarrow> sync_log \<Rightarrow> sync_log" where
  "markCompleted st now s =
     save now (s\<lparr>status := st, completedAt := Some now,
                 duration := Some (now - startedAt s)\<rparr>)"

definition addError ::
  "string \<Rightarrow> string \<Rightarrow> severity \<Rightarrow> string option \<Rightarrow> string option \<Rightarrow> date \<Rightarrow> sync_log \<Rightarrow> sync_log"
where
  "addError code message sev dataType itemId now s =
     save now (s\<lparr>errors := errors s @
       [\<lparr>e_timestamp = now, e_code = code, e_message = message, e_severity = sev,
         e_dataType = dataType, e_itemId = itemId, e_retryable = True, e_stack = None\<rparr>]\<rparr>)"

text \<open>The pushed entry names no resolution: the schema default \<^verbatim>\<open>manual_review\<close> applies.\<close>

definition addConflict ::
  "string option \<Rightarrow> string \<Rightarrow> conflict_type \<Rightarrow> item \<Rightarrow> diagnosis_doc \<Rightarrow> date \<Rightarrow> sync_log \<Rightarrow> sync_log"
where
  "addConflict itemId dataType conflictType localVersion serverVersion now s =
     save now (s\<lparr>conflicts := conflicts s @
       [\<lparr>c_itemId = itemId, c_dataType = dataType, c_conflictType = conflictType,
         c_resolution = Manual_review, c_resolvedAt = None, c_resolvedBy = None,
         c_localVersion = Some localVersion, c_serverVersion = Some serverVersion,
         c_mergedVersion = None\<rparr>]\<rparr>)"

definition updateProgress ::
  "int \<Rightarrow> int option \<Rightarrow> int option \<Rightarrow> int option \<Rightarrow> date \<Rightarrow> sync_log \<Rightarrow> sync_log"
where
  "updateProgress processedN successfulN failedN skippedN now s =
     (let p0 = (progress s)\<lparr>processedItems := processedN\<rparr>;
          p1 = (case successfulN of Some n \<Rightarrow> p0\<lparr>successfulItems := n\<rparr> | None \<Rightarrow> p0);
          p2 = (case failedN of Some n \<Rightarrow> p1\<lparr>failedItems := n\<rparr> | None \<Rightarrow> p1);
          p3 = (case skippedN of Some n \<Rightarrow> p2\<lparr>skippedItems := n\<rparr> | None \<Rightarrow> p2)
      in save now (s\<lparr>progress := recompute_percentage p3\<rparr>))"

section \<open>The Record Store and the request context\<close>

text \<open>
  The collections the sync routes touch, each in insertion order, and the counter the
  store draws fresh ObjectIds from.
\<close>

record db =
  db_activities :: "activity_doc list"
  db_diagnoses :: "diagnosis_doc list"
  db_users :: "user_doc list"
  db_syncLogs :: "sync_log list"
  db_next_oid :: object_id

text \<open>
  What the middleware hands to a route: the authenticated user and the verified device
  (\<^verbatim>\<open>req.user._id\<close>, \<^verbatim>\<open>req.deviceId\<close>). The clock is a parameter \<open>now\<close> of
  every operation: all the \<^verbatim>\<open>new Date()\<close> and \<^verbatim>\<open>Date.now()\<close> that one request
  evaluates read the same instant.
\<close>

record env =
  req_userId :: string
  req_deviceId :: string

text \<open>
  The database library is not part of the repository. Where one of its calls on a
  record collection can reject (a cast error of a query, a validation error of a save, a
  lost connection), the rejection is a parameter of the model: each field gives, for the
  argument of the call, the message of the exception it raises, or \<open>None\<close> when the call
  goes through. The theorems hold for every such behaviour.
\<close>

record backend =
  activity_findOne_err :: "item \<Rightarrow> string option"
  activity_save_err :: "activity_doc \<Rightarrow> string option"
  diagnosis_findOne_err :: "item \<Rightarrow> string option"
  diagnosis_save_err :: "diagnosis_doc \<Rightarrow> string option"
  user_update_err :: "item \<Rightarrow> string option"
  fetch_err :: "string \<Rightarrow> string option"

text \<open>
  Comparison of a stored date with \<^verbatim>\<open>new Date(...)\<close> of a client field: both
  \<^verbatim>\<open><\<close> and \<^verbatim>\<open>>\<close> are false against the Invalid Date.
\<close>

definition js_lt :: "date \<Rightarrow> date option \<Rightarrow> bool" where
  "js_lt a b = (case b of None \<Rightarrow> False | Some y \<Rightarrow> a < y)"

definition js_gt :: "date \<Rightarrow> date option \<Rightarrow> bool" where
  "js_gt a b = (case b of None \<Rightarrow> False | Some y \<Rightarrow> a > y)"

section \<open>POST /upload (routes/sync.js)\<close>

subsection \<open>The request and the per-item report\<close>

text \<open>
  A value of the \<^verbatim>\<open>data\<close> object: an array of records, or anything else. The object
  itself is an association list with distinct keys; \<open>None\<close> is a body without
  \<^verbatim>\<open>data\<close>.
\<close>

datatype jsval = Arr "item list" | Not_array

record upload_req =
  r_syncType :: string
  r_operation :: string
  r_dataTypes :: "string list"
  r_data :: "(string \<times> jsval) list option"
  r_sessionId :: string

record successful_entry =
  s_itemId :: "string option"
  s_dataType :: string
  s_serverId :: "object_id option"

record failed_entry =
  f_itemId :: "string option"
  f_dataType :: string
  f_error :: string

record conflict_report =
  k_itemId :: "string option"
  k_dataType :: string
  k_reason :: string

text \<open>
  \<^verbatim>\<open>results\<close>; its list \<^verbatim>\<open>results.conflicts\<close> is the field \<open>conflicted\<close>, since
  \<open>conflicts\<close> names the list of the session.
\<close>

record results =
  successful :: "successful_entry list"
  failed :: "failed_entry list"
  conflicted :: "conflict_report list"

text \<open>
  \<^verbatim>\<open>validateSync\<close> (middleware/validation.js): the checks on the fields the model keeps.
\<close>

definition data_type_enum :: "string list" where
  "data_type_enum = [''activities'', ''diagnoses'', ''user_profile'', ''preferences'',
                     ''clinical_records'', ''media_files'']"

definition validateSync :: "string \<Rightarrow> string \<Rightarrow> string list \<Rightarrow> bool" where
  "validateSync syncType operation dataTypes =
     (syncType \<in> set [''upload'', ''download'', ''bidirectional'', ''conflict_resolution'']
      \<and> operation \<in> set [''full_sync'', ''incremental_sync'', ''delta_sync'', ''manual_sync'',
                           ''auto_sync'']
      \<and> dataTypes \<noteq> []
      \<and> list_all (\<lambda>t. t \<in> set data_type_enum) dataTypes)"

subsection \<open>The three strategies of the switch\<close>

text \<open>
  How one pass through the \<^verbatim>\<open>switch\<close> ends: at \<^verbatim>\<open>break\<close> with
  \<^verbatim>\<open>savedItem?._id\<close> and the store as written, at the \<^verbatim>\<open>continue\<close> of the conflict
  branch with the stored diagnosis, or with an exception.
\<close>

datatype switch_exit =
  Break "object_id option" db
| Conflict_continue diagnosis_doc
| Throw string

definition activity_matches :: "env \<Rightarrow> item \<Rightarrow> activity_doc \<Rightarrow> bool" where
  "activity_matches e it a =
     (a_userId a = req_userId e \<and> a_deviceId a = req_deviceId e
      \<and> a_sessionId a = i_sessionId it \<and> a_activityType a = i_activityType it
      \<and> Some (a_timestamp a) = i_timestamp it)"

text \<open>
  \<^verbatim>\<open>new Activity({...item, userId, deviceId, syncStatus: 'synced', syncedAt: new Date()})\<close>;
  a missing timestamp takes the schema default \<^verbatim>\<open>Date.now\<close>.
\<close>

definition new_activity :: "env \<Rightarrow> date \<Rightarrow> object_id \<Rightarrow> item \<Rightarrow> activity_doc" where
  "new_activity e now oid it =
     \<lparr>a_oid = oid, a_userId = req_userId e, a_deviceId = req_deviceId e,
      a_sessionId = i_sessionId it, a_activityType = i_activityType it,
      a_timestamp = (case i_timestamp it of Some t \<Rightarrow> t | None \<Rightarrow> now),
      a_syncStatus = Synced, a_syncedAt = Some now, a_updatedAt = now,
      a_body = i_body it\<rparr>"

definition activities_case :: "env \<Rightarrow> backend \<Rightarrow> date \<Rightarrow> item \<Rightarrow> db \<Rightarrow> switch_exit" where
  "activities_case e be now it st =
     (case activity_findOne_err be it of
        Some msg \<Rightarrow> Throw msg
      | None \<Rightarrow>
         (case find (activity_matches e it) (db_activities st) of
            None \<Rightarrow>
              (let activity = new_activity e now (db_next_oid st) it
               in case activity_save_err be activity of
                    Some msg \<Rightarrow> Throw msg
                  | None \<Rightarrow>
                      Break (Some (a_oid activity))
                        (st\<lparr>db_activities := db_activities st @ [activity],
                            db_next_oid := Suc (db_next_oid st)\<rparr>))
          | Some existingActivity \<Rightarrow> Break (Some (a_oid existingActivity)) st))"

definition diagnosis_matches :: "env \<Rightarrow> item \<Rightarrow> diagnosis_doc \<Rightarrow> bool" where
  "diagnosis_matches e it d =
     (d_userId d = req_userId e \<and> d_deviceId d = req_deviceId e
      \<and> d_sessionId d = i_sessionId it \<and> d_patientId d = i_patientId it
      \<and> Some (d_createdAt d) = i_createdAt it)"

text \<open>\<^verbatim>\<open>diagnosisSchema.pre('save')\<close>, with the \<^verbatim>\<open>updatedAt\<close> that \<^verbatim>\<open>timestamps: true\<close> keeps.\<close>

definition diagnosis_pre_save :: "date \<Rightarrow> diagnosis_doc \<Rightarrow> diagnosis_doc" where
  "diagnosis_pre_save now d = d\<lparr>d_lastModified := now, d_updatedAt := now\<rparr>"

definition new_diagnosis :: "env \<Rightarrow> date \<Rightarrow> object_id \<Rightarrow> item \<Rightarrow> diagnosis_doc" where
  "new_diagnosis e now oid it =
     \<lparr>d_oid = oid, d_userId = req_userId e, d_deviceId = req_deviceId e,
      d_sessionId = i_sessionId it, d_patientId = i_patientId it,
      d_createdAt = (case i_createdAt it of Some t \<Rightarrow> t | None \<Rightarrow> now),
      d_lastModified = (case i_lastModified it of Some t \<Rightarrow> t | None \<Rightarrow> now),
      d_syncStatus = Synced, d_syncedAt = Some now, d_updatedAt = now,
      d_body = i_body it\<rparr>"

text \<open>
  \<^verbatim>\<open>Object.assign(existingDiagnosis, item)\<close>: the fields the item carries replace the
  stored ones. The server's own fields (\<^verbatim>\<open>_id\<close>, owner, device) are taken not to be
  among the item's.
\<close>

definition Object_assign :: "diagnosis_doc \<Rightarrow> item \<Rightarrow> diagnosis_doc" where
  "Object_assign d it =
     d\<lparr>d_sessionId := (case i_sessionId it of Some s \<Rightarrow> Some s | None \<Rightarrow> d_sessionId d),
       d_patientId := (case i_patientId it of Some s \<Rightarrow> Some s | None \<Rightarrow> d_patientId d),
       d_createdAt := (case i_createdAt it of Some t \<Rightarrow> t | None \<Rightarrow> d_createdAt d),
       d_lastModified := (case i_lastModified it of Some t \<Rightarrow> t | None \<Rightarrow> d_lastModified d),
       d_body := i_body it\<rparr>"

text \<open>\<^verbatim>\<open>doc.save()\<close> of a document already stored writes the document with that \<^verbatim>\<open>_id\<close>.\<close>

definition store_diagnosis :: "diagnosis_doc \<Rightarrow> diagnosis_doc list \<Rightarrow> diagnosis_doc list" where
  "store_diagnosis d ds = map (\<lambda>x. if d_oid x = d_oid d then d else x) ds"

definition diagnoses_case :: "env \<Rightarrow> backend \<Rightarrow> date \<Rightarrow> item \<Rightarrow> db \<Rightarrow> switch_exit" where
  "diagnoses_case e be now it st =
     (case diagnosis_findOne_err be it of
        Some msg \<Rightarrow> Throw msg
      | None \<Rightarrow>
         (case find (diagnosis_matches e it) (db_diagnoses st) of
            None \<Rightarrow>
              (let diagnosis = diagnosis_pre_save now (new_diagnosis e now (db_next_oid st) it)
               in case diagnosis_save_err be diagnosis of
                    Some msg \<Rightarrow> Throw msg
                  | None \<Rightarrow>
                      Break (Some (d_oid diagnosis))
                        (st\<lparr>db_diagnoses := db_diagnoses st @ [diagnosis],
                            db_next_oid := Suc (db_next_oid st)\<rparr>))
          | Some existingDiagnosis \<Rightarrow>
              if js_lt (d_lastModified existingDiagnosis) (i_lastModified it) then
                (let saved = diagnosis_pre_save now
                       ((Object_assign existingDiagnosis it)
                          \<lparr>d_syncStatus := Synced, d_syncedAt := Some now\<rparr>)
                 in case diagnosis_save_err be saved of
                      Some msg \<Rightarrow> Throw msg
                    | None \<Rightarrow>
                        Break (Some (d_oid saved))
                          (st\<lparr>db_diagnoses := store_diagnosis saved (db_diagnoses st)\<rparr>))
              else if js_gt (d_lastModified existingDiagnosis) (i_lastModified it) then
                Conflict_continue existingDiagnosis
              else Break (Some (d_oid existingDiagnosis)) st))"

text \<open>
  \<^verbatim>\<open>case 'user_profile'\<close>: only the truthy fields of the item go into
  \<^verbatim>\<open>updateFields\<close>; with none, nothing is written. Neither \<^verbatim>\<open>savedItem\<close> has an
  \<^verbatim>\<open>_id\<close>.
\<close>

definition pick :: "string option \<Rightarrow> string option \<Rightarrow> string option" where
  "pick new old = (if truthy new then new else old)"

definition apply_updateFields :: "date \<Rightarrow> item \<Rightarrow> user_doc \<Rightarrow> user_doc" where
  "apply_updateFields now it u =
     u\<lparr>u_firstName := pick (i_firstName it) (u_firstName u),
       u_lastName := pick (i_lastName it) (u_lastName u),
       u_facility := pick (i_facility it) (u_facility u),
       u_state := pick (i_state it) (u_state u),
       u_contactInfo := pick (i_contactInfo it) (u_contactInfo u),
       u_updatedAt := now\<rparr>"

definition user_profile_case :: "env \<Rightarrow> backend \<Rightarrow> date \<Rightarrow> item \<Rightarrow> db \<Rightarrow> switch_exit" where
  "user_profile_case e be now it st =
     (if truthy (i_firstName it) \<or> truthy (i_lastName it) \<or> truthy (i_facility it)
         \<or> truthy (i_state it) \<or> truthy (i_contactInfo it)
      then (case user_update_err be it of
              Some msg \<Rightarrow> Throw msg
            | None \<Rightarrow>
                Break None
                  (st\<lparr>db_users :=
                        map (\<lambda>u. if u_oid u = req_userId e then apply_updateFields now it u else u)
                          (db_users st)\<rparr>))
      else Break None st)"

definition switch :: "env \<Rightarrow> backend \<Rightarrow> date \<Rightarrow> string \<Rightarrow> item \<Rightarrow> db \<Rightarrow> switch_exit" where
  "switch e be now dataType it st =
     (if dataType = ''activities'' then activities_case e be now it st
      else if dataType = ''diagnoses'' then diagnoses_case e be now it st
      else if dataType = ''user_profile'' then user_profile_case e be now it st
      else Throw (''Unsupported data type: '' @ dataType))"

subsection \<open>The body of the item loop, and the two loops\<close>

record upload_state =
  us_store :: db
  us_syncLog :: sync_log
  us_results :: results

text \<open>
  One iteration of \<^verbatim>\<open>for (const item of data[dataType])\<close>: the \<^verbatim>\<open>try\<close> with the
  switch, the push to \<^verbatim>\<open>results.successful\<close> and \<^verbatim>\<open>updateProgress\<close> after a
  \<^verbatim>\<open>break\<close>; \<^verbatim>\<open>addConflict\<close>, the push to \<^verbatim>\<open>results.conflicts\<close> and \<^verbatim>\<open>continue\<close>
  in the conflict branch; the \<^verbatim>\<open>catch\<close> with the push to \<^verbatim>\<open>results.failed\<close> and
  \<^verbatim>\<open>addError\<close>.
\<close>

definition process_item ::
  "env \<Rightarrow> backend \<Rightarrow> date \<Rightarrow> string \<Rightarrow> item \<Rightarrow> upload_state \<Rightarrow> upload_state"
where
  "process_item e be now dataType it us =
     (case switch e be now dataType it (us_store us) of
        Break serverId st' \<Rightarrow>
          (let r = (us_results us)\<lparr>successful := successful (us_results us) @
                     [\<lparr>s_itemId = item_ref it, s_dataType = dataType, s_serverId = serverId\<rparr>]\<rparr>
           in us\<lparr>us_store := st', us_results := r,
                 us_syncLog :=
                   updateProgress
                     (int (length (successful r)) + int (length (failed r)))
                     (Some (int (length (successful r))))
                     (Some (int (length (failed r))))
                     None now (us_syncLog us)\<rparr>)
      | Conflict_continue existingDiagnosis \<Rightarrow>
          us\<lparr>us_syncLog :=
               addConflict (item_ref it) dataType Concurrent_modification it existingDiagnosis
                 now (us_syncLog us),
             us_results := (us_results us)\<lparr>conflicted := conflicted (us_results us) @
               [\<lparr>k_itemId = item_ref it, k_dataType = dataType,
                 k_reason = ''concurrent_modification''\<rparr>]\<rparr>\<rparr>
      | Throw msg \<Rightarrow>
          us\<lparr>us_results := (us_results us)\<lparr>failed := failed (us_results us) @
               [\<lparr>f_itemId = item_ref it, f_dataType = dataType, f_error = msg\<rparr>]\<rparr>,
             us_syncLog :=
               addError ''ITEM_PROCESSING_ERROR'' msg Medium (Some dataType) (item_ref it)
                 now (us_syncLog us)\<rparr>)"

fun items_loop ::
  "env \<Rightarrow> backend \<Rightarrow> date \<Rightarrow> string \<Rightarrow> item list \<Rightarrow> upload_state \<Rightarrow> upload_state"
where
  "items_loop e be now dataType [] us = us"
| "items_loop e be now dataType (it # rest) us =
     items_loop e be now dataType rest (process_item e be now dataType it us)"

text \<open>
  \<^verbatim>\<open>for (const dataType of dataTypes)\<close>, with the \<^verbatim>\<open>continue\<close> for a type whose entry
  of \<^verbatim>\<open>data\<close> is missing or not an array.
\<close>

fun dataTypes_loop ::
  "env \<Rightarrow> backend \<Rightarrow> date \<Rightarrow> (string \<times> jsval) list \<Rightarrow> string list \<Rightarrow> upload_state \<Rightarrow> upload_state"
where
  "dataTypes_loop e be now data [] us = us"
| "dataTypes_loop e be now data (dataType # rest) us =
     dataTypes_loop e be now data rest
       (case map_of data dataType of
          Some (Arr its) \<Rightarrow> items_loop e be now dataType its us
        | Some Not_array \<Rightarrow> us
        | None \<Rightarrow> us)"

subsection \<open>The handler\<close>

text \<open>
  \<^verbatim>\<open>Object.values(data).reduce((sum, items) => sum + (Array.isArray(items) ? items.length : 0), 0)\<close>
\<close>

definition count_items :: "(string \<times> jsval) list \<Rightarrow> int" where
  "count_items data =
     foldl (\<lambda>sum items. sum + (case items of Arr its \<Rightarrow> int (length its) | Not_array \<Rightarrow> 0))
       0 (map snd data)"

definition default_progress :: progress_rec where
  "default_progress =
     \<lparr>totalItems = 0, processedItems = 0, successfulItems = 0, failedItems = 0,
      skippedItems = 0, percentage = 0\<rparr>"

text \<open>\<^verbatim>\<open>new SyncLog({...})\<close> with the schema defaults for what the route leaves out.\<close>

definition new_SyncLog ::
  "env \<Rightarrow> date \<Rightarrow> object_id \<Rightarrow> string \<Rightarrow> string \<Rightarrow> string \<Rightarrow> string list \<Rightarrow> int \<Rightarrow> sync_log"
where
  "new_SyncLog e now oid sessionId syncType operation dataTypes totalN =
     \<lparr>sl_oid = oid, sl_userId = req_userId e, sl_deviceId = req_deviceId e,
      sl_sessionId = sessionId, sl_syncType = syncType, sl_operation = operation,
      sl_dataTypes = dataTypes, status = In_progress,
      progress = default_progress\<lparr>totalItems := totalN\<rparr>,
      startedAt = now, completedAt = None, duration = None, errors = [], conflicts = [],
      sl_updatedAt = now\<rparr>"

datatype upload_response =
  Upload_ok sync_status results
| Upload_sync_error

record upload_outcome =
  up_response :: upload_response
  up_syncLog :: "sync_log option"
  up_store :: db

text \<open>
  The state in which the loops start: the session as created and saved (status
  \<^verbatim>\<open>in_progress\<close>, \<^verbatim>\<open>totalItems\<close> counted from \<^verbatim>\<open>data\<close>, a fresh id), empty
  \<^verbatim>\<open>results\<close>.
\<close>

definition upload_start ::
  "env \<Rightarrow> date \<Rightarrow> upload_req \<Rightarrow> (string \<times> jsval) list \<Rightarrow> db \<Rightarrow> upload_state"
where
  "upload_start e now req data st =
     \<lparr>us_store = st\<lparr>db_next_oid := Suc (db_next_oid st)\<rparr>,
      us_syncLog = save now
        (new_SyncLog e now (db_next_oid st) (r_sessionId req) (r_syncType req)
           (r_operation req) (r_dataTypes req) (count_items data)),
      us_results = \<lparr>successful = [], failed = [], conflicted = []\<rparr>\<rparr>"

text \<open>
  The handler. A body without \<^verbatim>\<open>data\<close> makes \<^verbatim>\<open>Object.values\<close> throw before the
  session exists: the outer \<^verbatim>\<open>catch\<close> answers 500 and writes nothing. Otherwise the
  session is created and saved, the loops run, and \<^verbatim>\<open>markCompleted\<close> closes the session,
  whose last saved state is what the ledger holds.
\<close>

definition upload :: "env \<Rightarrow> backend \<Rightarrow> date \<Rightarrow> upload_req \<Rightarrow> db \<Rightarrow> upload_outcome" where
  "upload e be now req st =
     (case r_data req of
        None \<Rightarrow> \<lparr>up_response = Upload_sync_error, up_syncLog = None, up_store = st\<rparr>
      | Some data \<Rightarrow>
          (let us = dataTypes_loop e be now data (r_dataTypes req)
                      (upload_start e now req data st);
               status' = (if length (failed (us_results us)) > 0 then Partial else Completed);
               final = markCompleted status' now (us_syncLog us)
           in \<lparr>up_response = Upload_ok status' (us_results us),
               up_syncLog = Some final,
               up_store = (us_store us)\<lparr>db_syncLogs := db_syncLogs (us_store us) @ [final]\<rparr>\<rparr>))"

subsection \<open>The run of the loops as one sequence\<close>

text \<open>
  The (data type, record) pairs in the order the two loops visit them: for each entry of
  \<^verbatim>\<open>dataTypes\<close> in turn, the records of \<^verbatim>\<open>data[dataType]\<close> when that is an array.
\<close>

definition work_items :: "(string \<times> jsval) list \<Rightarrow> string list \<Rightarrow> (string \<times> item) list" where
  "work_items data dataTypes =
     concat (map (\<lambda>dataType. case map_of data dataType of
                                 Some (Arr its) \<Rightarrow> map (Pair dataType) its
                               | Some Not_array \<Rightarrow> []
                               | None \<Rightarrow> [])
               dataTypes)"

definition run_items ::
  "env \<Rightarrow> backend \<Rightarrow> date \<Rightarrow> (string \<times> item) list \<Rightarrow> upload_state \<Rightarrow> upload_state"
where
  "run_items e be now ws us = foldl (\<lambda>s w. process_item e be now (fst w) (snd w) s) us ws"

text \<open>How the switch ends for an item met in a given state of the upload.\<close>

definition breaks :: "env \<Rightarrow> backend \<Rightarrow> date \<Rightarrow> string \<times> item \<Rightarrow> upload_state \<Rightarrow> bool" where
  "breaks e be now w us =
     (case switch e be now (fst w) (snd w) (us_store us) of
        Break serverId st' \<Rightarrow> True | Conflict_continue d \<Rightarrow> False | Throw msg \<Rightarrow> False)"

definition thrown ::
  "env \<Rightarrow> backend \<Rightarrow> date \<Rightarrow> string \<times> item \<Rightarrow> upload_state \<Rightarrow> string option"
where
  "thrown e be now w us =
     (case switch e be now (fst w) (snd w) (us_store us) of
        Break serverId st' \<Rightarrow> None | Conflict_continue d \<Rightarrow> None | Throw msg \<Rightarrow> Some msg)"

definition conflicting ::
  "env \<Rightarrow> backend \<Rightarrow> date \<Rightarrow> string \<times> item \<Rightarrow> upload_state \<Rightarrow> bool"
where
  "conflicting e be now w us =
     (case switch e be now (fst w) (snd w) (us_store us) of
        Break serverId st' \<Rightarrow> False | Conflict_continue d \<Rightarrow> True | Throw msg \<Rightarrow> False)"

section \<open>POST /download (routes/sync.js)\<close>

text \<open>
  \<^verbatim>\<open>lastSyncTimestamp\<close> as the body gives it: missing (or falsy), a value
  \<^verbatim>\<open>new Date\<close> cannot parse, or a date.
\<close>

datatype timestamp_field = Missing | Unparsable | Parsed date

record download_req =
  q_syncType :: string
  q_operation :: string
  q_dataTypes :: "string list"
  q_lastSyncTimestamp :: timestamp_field
  q_sessionId :: string

text \<open>\<^verbatim>\<open>lastSyncTimestamp ? new Date(lastSyncTimestamp) : new Date(0)\<close>\<close>

definition lastSync_of :: "timestamp_field \<Rightarrow> date option" where
  "lastSync_of f = (case f of Missing \<Rightarrow> Some 0 | Unparsable \<Rightarrow> None | Parsed t \<Rightarrow> Some t)"

text \<open>
  The \<^verbatim>\<open>data\<close> object of the response: a key is present once its branch of the
  switch has assigned it.
\<close>

record download_data =
  dl_activities :: "activity_doc list option"
  dl_diagnoses :: "diagnosis_doc list option"
  dl_user_profile :: "user_doc option"

text \<open>
  \<^verbatim>\<open>Activity.find({userId, updatedAt: {$gt: lastSync}, syncStatus: 'synced'})
  .sort({updatedAt: -1}).limit(1000)\<close>, and the same on diagnoses with limit 500.
\<close>

definition find_activities :: "env \<Rightarrow> date option \<Rightarrow> db \<Rightarrow> activity_doc list" where
  "find_activities e lastSync st =
     take 1000
       (sort_key (\<lambda>a. - a_updatedAt a)
          (filter (\<lambda>a. a_userId a = req_userId e \<and> js_gt (a_updatedAt a) lastSync
                        \<and> a_syncStatus a = Synced)
             (db_activities st)))"

definition find_diagnoses :: "env \<Rightarrow> date option \<Rightarrow> db \<Rightarrow> diagnosis_doc list" where
  "find_diagnoses e lastSync st =
     take 500
       (sort_key (\<lambda>d. - d_updatedAt d)
          (filter (\<lambda>d. d_userId d = req_userId e \<and> js_gt (d_updatedAt d) lastSync
                        \<and> d_syncStatus d = Synced)
             (db_diagnoses st)))"

text \<open>
  One iteration of \<^verbatim>\<open>for (const dataType of dataTypes)\<close>: the \<^verbatim>\<open>try\<close> around the
  switch and its \<^verbatim>\<open>catch\<close> with \<^verbatim>\<open>addError\<close>. The default branch only warns.
\<close>

definition fetch_type ::
  "env \<Rightarrow> backend \<Rightarrow> date \<Rightarrow> date option \<Rightarrow> db \<Rightarrow> string \<Rightarrow> download_data \<times> sync_log
     \<Rightarrow> download_data \<times> sync_log"
where
  "fetch_type e be now lastSync st dataType acc =
     (if dataType = ''activities'' \<or> dataType = ''diagnoses'' \<or> dataType = ''user_profile''
      then (case fetch_err be dataType of
              Some msg \<Rightarrow>
                (fst acc,
                 addError ''DATA_FETCH_ERROR'' msg Medium (Some dataType) None now (snd acc))
            | None \<Rightarrow>
                if dataType = ''activities''
                then ((fst acc)\<lparr>dl_activities := Some (find_activities e lastSync st)\<rparr>, snd acc)
                else if dataType = ''diagnoses''
                then ((fst acc)\<lparr>dl_diagnoses := Some (find_diagnoses e lastSync st)\<rparr>, snd acc)
                else (case find (\<lambda>u. u_oid u = req_userId e) (db_users st) of
                        Some user \<Rightarrow>
                          if js_gt (u_updatedAt user) lastSync
                          then ((fst acc)\<lparr>dl_user_profile := Some user\<rparr>, snd acc)
                          else acc
                      | None \<Rightarrow> acc))
      else acc)"

fun fetch_loop ::
  "env \<Rightarrow> backend \<Rightarrow> date \<Rightarrow> date option \<Rightarrow> db \<Rightarrow> string list \<Rightarrow> download_data \<times> sync_log
     \<Rightarrow> download_data \<times> sync_log"
where
  "fetch_loop e be now lastSync st [] acc = acc"
| "fetch_loop e be now lastSync st (dataType # rest) acc =
     fetch_loop e be now lastSync st rest (fetch_type e be now lastSync st dataType acc)"

text \<open>
  \<^verbatim>\<open>Object.values(data).reduce((sum, items) =>
  sum + (Array.isArray(items) ? items.length : (items ? 1 : 0)), 0)\<close>
\<close>

definition aggregate_count :: "download_data \<Rightarrow> int" where
  "aggregate_count data =
     (case dl_activities data of Some xs \<Rightarrow> int (length xs) | None \<Rightarrow> 0)
     + (case dl_diagnoses data of Some xs \<Rightarrow> int (length xs) | None \<Rightarrow> 0)
     + (case dl_user_profile data of Some u \<Rightarrow> 1 | None \<Rightarrow> 0)"

record download_outcome =
  dn_data :: download_data
  dn_totalItems :: int
  dn_syncLog :: sync_log
  dn_store :: db

text \<open>
  The handler: the session is created without a \<^verbatim>\<open>progress\<close>, so its
  \<^verbatim>\<open>totalItems\<close> is the schema default 0; after the fetch loop comes
  \<^verbatim>\<open>updateProgress(totalItems, totalItems, 0)\<close>, then \<^verbatim>\<open>markCompleted('completed')\<close>.
\<close>

definition download :: "env \<Rightarrow> backend \<Rightarrow> date \<Rightarrow> download_req \<Rightarrow> db \<Rightarrow> download_outcome" where
  "download e be now req st =
     (let syncLog = save now
            (new_SyncLog e now (db_next_oid st) (q_sessionId req) (q_syncType req)
               (q_operation req) (q_dataTypes req) 0);
          lastSync = lastSync_of (q_lastSyncTimestamp req);
          fetched = fetch_loop e be now lastSync st (q_dataTypes req)
                      (\<lparr>dl_activities = None, dl_diagnoses = None, dl_user_profile = None\<rparr>,
                       syncLog);
          totalN = aggregate_count (fst fetched);
          final = markCompleted Completed now
                    (updateProgress totalN (Some totalN) (Some 0) None now (snd fetched))
      in \<lparr>dn_data = fst fetched, dn_totalItems = totalN, dn_syncLog = final,
          dn_store = st\<lparr>db_next_oid := Suc (db_next_oid st),
                        db_syncLogs := db_syncLogs st @ [final]\<rparr>\<rparr>)"

section \<open>The Conflict Review API (routes/sync.js)\<close>

subsection \<open>GET /conflicts\<close>

record listed_conflict =
  lc_syncId :: object_id
  lc_syncTimestamp :: date
  lc_conflict :: conflict_entry

text \<open>
  The sessions of the caller's user and device with some conflict in
  \<^verbatim>\<open>manual_review\<close>, newest first, one page of them; of each, the conflicts still in
  \<^verbatim>\<open>manual_review\<close>. \<open>page\<close> and \<open>limit\<close> are the parsed query values (defaults 1 and
  20).
\<close>

definition unresolved :: "conflict_entry \<Rightarrow> bool" where
  "unresolved c = (c_resolution c = Manual_review)"

definition get_conflicts :: "env \<Rightarrow> nat \<Rightarrow> nat \<Rightarrow> db \<Rightarrow> listed_conflict list" where
  "get_conflicts e page limit st =
     (let skip = (page - 1) * limit;
          syncLogsWithConflicts =
            take limit (drop skip
              (sort_key (\<lambda>l. - startedAt l)
                 (filter (\<lambda>l. sl_userId l = req_userId e \<and> sl_deviceId l = req_deviceId e
                               \<and> list_ex unresolved (conflicts l))
                    (db_syncLogs st))))
      in concat (map (\<lambda>l. map (\<lambda>c. \<lparr>lc_syncId = sl_oid l, lc_syncTimestamp = startedAt l,
                                        lc_conflict = c\<rparr>)
                             (filter unresolved (conflicts l)))
                   syncLogsWithConflicts))"

subsection \<open>POST /resolve-conflict\<close>

record resolve_req =
  rc_syncId :: object_id
  rc_conflictItemId :: "string option"
  rc_resolution :: resolution
  rc_mergedData :: "string option"

datatype resolve_response =
  Conflict_resolved "string option" resolution
| Sync_log_not_found
| Conflict_not_found

text \<open>
  \<^verbatim>\<open>syncLog.conflicts.find(c => c.itemId === conflictItemId)\<close> yields the first entry
  with that item id, which the assignments then mutate in place.
\<close>

fun update_first :: "('a \<Rightarrow> bool) \<Rightarrow> ('a \<Rightarrow> 'a) \<Rightarrow> 'a list \<Rightarrow> 'a list" where
  "update_first P f [] = []"
| "update_first P f (x # xs) = (if P x then f x # xs else x # update_first P f xs)"

definition resolve_entry :: "env \<Rightarrow> date \<Rightarrow> resolve_req \<Rightarrow> conflict_entry \<Rightarrow> conflict_entry" where
  "resolve_entry e now req c =
     c\<lparr>c_resolution := rc_resolution req, c_resolvedAt := Some now,
       c_resolvedBy := Some (req_userId e),
       c_mergedVersion :=
         (if truthy (rc_mergedData req) then rc_mergedData req else c_mergedVersion c)\<rparr>"

definition resolve_conflict :: "env \<Rightarrow> date \<Rightarrow> resolve_req \<Rightarrow> db \<Rightarrow> resolve_response \<times> db" where
  "resolve_conflict e now req st =
     (case find (\<lambda>l. sl_oid l = rc_syncId req \<and> sl_userId l = req_userId e
                      \<and> sl_deviceId l = req_deviceId e) (db_syncLogs st) of
        None \<Rightarrow> (Sync_log_not_found, st)
      | Some syncLog \<Rightarrow>
          (case find (\<lambda>c. c_itemId c = rc_conflictItemId req) (conflicts syncLog) of
             None \<Rightarrow> (Conflict_not_found, st)
           | Some conflict \<Rightarrow>
               (let saved = save now
                      (syncLog\<lparr>conflicts :=
                         update_first (\<lambda>c. c_itemId c = rc_conflictItemId req)
                           (resolve_entry e now req) (conflicts syncLog)\<rparr>)
                in (Conflict_resolved (rc_conflictItemId req) (rc_resolution req),
                    st\<lparr>db_syncLogs :=
                         map (\<lambda>l. if sl_oid l = sl_oid saved then saved else l)
                           (db_syncLogs st)\<rparr>))))"

subsection \<open>The progress invariant of the data model\<close>

text \<open>
  What the data model requires of a session's progress at all times: the processed items
  are the successful, failed and skipped ones, no counter is negative, and the percentage
  is the rounded share of processed items when there are items at all, and 0 otherwise.
\<close>

definition progress_consistent :: "progress_rec \<Rightarrow> bool" where
  "progress_consistent p =
     (processedItems p = successfulItems p + failedItems p + skippedItems p
      \<and> 0 \<le> totalItems p \<and> 0 \<le> processedItems p \<and> 0 \<le> successfulItems p
      \<and> 0 \<le> failedItems p \<and> 0 \<le> skippedItems p
      \<and> percentage p =
            (if totalItems p > 0
             then Math_round ((real_of_int (processedItems p) / real_of_int (totalItems p)) * 100)
             else 0))"

subsection \<open>The total the upload contract names\<close>



section \<open>Concrete requests and stores\<close>

text \<open>
  A user \<^verbatim>\<open>u1\<close> on device \<^verbatim>\<open>dev1\<close>, a store whose calls never reject, and small
  records to run the routes on.
\<close>

definition ex_env :: env where
  "ex_env = \<lparr>req_userId = ''u1'', req_deviceId = ''dev1''\<rparr>"

definition ex_backend :: backend where
  "ex_backend =
     \<lparr>activity_findOne_err = (\<lambda>_. None), activity_save_err = (\<lambda>_. None),
      diagnosis_findOne_err = (\<lambda>_. None), diagnosis_save_err = (\<lambda>_. None),
      user_update_err = (\<lambda>_. None), fetch_err = (\<lambda>_. None)\<rparr>"

definition ex_item :: "string \<Rightarrow> item" where
  "ex_item name =
     \<lparr>i_uid = None, i_id = Some name, i_sessionId = Some ''s1'', i_activityType = None,
      i_timestamp = None, i_patientId = None, i_createdAt = None, i_lastModified = None,
      i_firstName = None, i_lastName = None, i_facility = None, i_state = None,
      i_contactInfo = None, i_body = name\<rparr>"

text \<open>A diagnosis of patient \<^verbatim>\<open>p1\<close> created at 100 and last modified by the client at \<open>t\<close>.\<close>

definition ex_diagnosis_item :: "date \<Rightarrow> item" where
  "ex_diagnosis_item t =
     (ex_item ''dx1'')\<lparr>i_patientId := Some ''p1'', i_createdAt := Some 100,
                        i_lastModified := Some t\<rparr>"

text \<open>The same diagnosis as the server holds it, last modified at \<open>t\<close>.\<close>

definition ex_stored_diagnosis :: "date \<Rightarrow> diagnosis_doc" where
  "ex_stored_diagnosis t =
     \<lparr>d_oid = 7, d_userId = ''u1'', d_deviceId = ''dev1'', d_sessionId = Some ''s1'',
      d_patientId = Some ''p1'', d_createdAt = 100, d_lastModified = t,
      d_syncStatus = Synced, d_syncedAt = Some t, d_updatedAt = t, d_body = ''old''\<rparr>"

definition ex_activity_item :: "string \<Rightarrow> date \<Rightarrow> item" where
  "ex_activity_item name t =
     (ex_item name)\<lparr>i_activityType := Some ''login'', i_timestamp := Some t\<rparr>"

definition ex_db :: "diagnosis_doc list \<Rightarrow> db" where
  "ex_db ds =
     \<lparr>db_activities = [], db_diagnoses = ds, db_users = [], db_syncLogs = [],
      db_next_oid = 10\<rparr>"


text \<open>
  A batch of five: two profile records, one record of the type \<^verbatim>\<open>preferences\<close> (which
  the upload switch does not support), two activities.
\<close>

definition ex_profile_item :: "string \<Rightarrow> string \<Rightarrow> item" where
  "ex_profile_item name first = (ex_item name)\<lparr>i_firstName := Some first\<rparr>"

definition ex_upload_req :: "string list \<Rightarrow> (string \<times> jsval) list \<Rightarrow> upload_req" where
  "ex_upload_req dataTypes data =
     \<lparr>r_syncType = ''upload'', r_operation = ''full_sync'', r_dataTypes = dataTypes,
      r_data = Some data, r_sessionId = ''s1''\<rparr>"

definition ex_batch5 :: "(string \<times> jsval) list" where
  "ex_batch5 =
     [(''user_profile'', Arr [ex_profile_item ''i1'' ''Ann'', ex_item ''i2'']),
      (''preferences'', Arr [ex_item ''i3'']),
      (''activities'', Arr [ex_activity_item ''i4'' 50, ex_activity_item ''i5'' 60])]"



text \<open>
  A store for the download: four activities, of which only the first is the caller's,
  synced, and updated after the watermark 100 (the second was updated exactly at 100, the
  third belongs to another user, the fourth is still pending).
\<close>

definition ex_activity_doc ::
  "object_id \<Rightarrow> string \<Rightarrow> date \<Rightarrow> record_sync_status \<Rightarrow> activity_doc"
where
  "ex_activity_doc oid user t sync =
     \<lparr>a_oid = oid, a_userId = user, a_deviceId = ''dev1'', a_sessionId = Some ''s1'',
      a_activityType = Some ''login'', a_timestamp = t, a_syncStatus = sync,
      a_syncedAt = Some t, a_updatedAt = t, a_body = ''a''\<rparr>"

definition ex_download_db :: db where
  "ex_download_db =
     \<lparr>db_activities = [ex_activity_doc 1 ''u1'' 500 Synced, ex_activity_doc 2 ''u1'' 100 Synced,
                       ex_activity_doc 3 ''u2'' 600 Synced, ex_activity_doc 4 ''u1'' 700 Pending],
      db_diagnoses = [], db_users = [], db_syncLogs = [], db_next_oid = 10\<rparr>"

definition ex_download_req :: download_req where
  "ex_download_req =
     \<lparr>q_syncType = ''download'', q_operation = ''incremental_sync'',
      q_dataTypes = [''activities''], q_lastSyncTimestamp = Parsed 100, q_sessionId = ''s1''\<rparr>"

text \<open>
  A ledger with one session of the caller, holding the conflict entry that the upload of
  the stale diagnosis above records, and a request to resolve that entry.
\<close>

definition ex_session :: sync_log where
  "ex_session =
     addConflict (Some ''dx1'') ''diagnoses'' Concurrent_modification (ex_diagnosis_item 200)
       (ex_stored_diagnosis 250) 300
       (save 300 (new_SyncLog ex_env 300 9 ''s1'' ''upload'' ''full_sync'' [''diagnoses''] 1))"

definition ex_review_db :: db where
  "ex_review_db =
     \<lparr>db_activities = [], db_diagnoses = [ex_stored_diagnosis 250], db_users = [],
      db_syncLogs = [ex_session], db_next_oid = 10\<rparr>"

definition ex_resolve :: "resolution \<Rightarrow> resolve_req" where
  "ex_resolve r =
     \<lparr>rc_syncId = 9, rc_conflictItemId = Some ''dx1'', rc_resolution = r,
      rc_mergedData = None\<rparr>"

section \<open>Facts about the ledger operations\<close>

lemma Math_round_quotient:
  assumes "0 < t"
  shows "Math_round ((real_of_int p / real_of_int t) * 100) = (200 * p + t) div (2 * t)"
proof -
  have "(real_of_int p / real_of_int t) * 100 + 1 / 2
        = real_of_int (200 * p + t) / real_of_int (2 * t)"
    using assms by (simp add: field_simps)
  then show ?thesis
    unfolding Math_round_def by (simp only: floor_divide_of_int_eq)
qed

lemma recompute_percentage_fields [simp]:
  "totalItems (recompute_percentage p) = totalItems p"
  "processedItems (recompute_percentage p) = processedItems p"
  "successfulItems (recompute_percentage p) = successfulItems p"
  "failedItems (recompute_percentage p) = failedItems p"
  "skippedItems (recompute_percentage p) = skippedItems p"
  by (simp_all add: recompute_percentage_def)

lemma recompute_percentage_idem [simp]:
  "recompute_percentage (recompute_percentage p) = recompute_percentage p"
  by (simp add: recompute_percentage_def)

lemma save_fields [simp]:
  "status (save now s) = status s"
  "errors (save now s) = errors s"
  "conflicts (save now s) = conflicts s"
  "progress (save now s) = recompute_percentage (progress s)"
  "startedAt (save now s) = startedAt s"
  "completedAt (save now s) = completedAt s"
  "sl_oid (save now s) = sl_oid s"
  "sl_userId (save now s) = sl_userId s"
  "sl_deviceId (save now s) = sl_deviceId s"
  by (simp_all add: save_def Let_def split: option.split)

lemma markCompleted_fields [simp]:
  "status (markCompleted st now s) = st"
  "errors (markCompleted st now s) = errors s"
  "conflicts (markCompleted st now s) = conflicts s"
  "progress (markCompleted st now s) = recompute_percentage (progress s)"
  "completedAt (markCompleted st now s) = Some now"
  "duration (markCompleted st now s) = Some (now - startedAt s)"
  by (simp_all add: markCompleted_def save_def Let_def)

lemma addError_fields [simp]:
  "status (addError code msg sev dt iid now s) = status s"
  "conflicts (addError code msg sev dt iid now s) = conflicts s"
  "progress (addError code msg sev dt iid now s) = recompute_percentage (progress s)"
  "errors (addError code msg sev dt iid now s) = errors s @
       [\<lparr>e_timestamp = now, e_code = code, e_message = msg, e_severity = sev,
         e_dataType = dt, e_itemId = iid, e_retryable = True, e_stack = None\<rparr>]"
  by (simp_all add: addError_def)

lemma addConflict_fields [simp]:
  "status (addConflict iid dt ct lv sv now s) = status s"
  "errors (addConflict iid dt ct lv sv now s) = errors s"
  "progress (addConflict iid dt ct lv sv now s) = recompute_percentage (progress s)"
  "conflicts (addConflict iid dt ct lv sv now s) = conflicts s @
       [\<lparr>c_itemId = iid, c_dataType = dt, c_conflictType = ct,
         c_resolution = Manual_review, c_resolvedAt = None, c_resolvedBy = None,
         c_localVersion = Some lv, c_serverVersion = Some sv,
         c_mergedVersion = None\<rparr>]"
  by (simp_all add: addConflict_def)

lemma updateProgress_fields [simp]:
  "status (updateProgress p (Some a) (Some b) None now s) = status s"
  "errors (updateProgress p (Some a) (Some b) None now s) = errors s"
  "conflicts (updateProgress p (Some a) (Some b) None now s) = conflicts s"
  "progress (updateProgress p (Some a) (Some b) None now s) =
     recompute_percentage ((progress s)\<lparr>processedItems := p, successfulItems := a, failedItems := b\<rparr>)"
  by (simp_all add: updateProgress_def Let_def)

section \<open>The diagnosis strategy of the Item Processor\<close>







section \<open>The activity strategy: duplicate suppression\<close>










section \<open>The upload loops\<close>

lemma run_items_Nil [simp]: "run_items e be now [] us = us"
  by (simp add: run_items_def)

lemma run_items_Cons [simp]:
  "run_items e be now (w # ws) us = run_items e be now ws (process_item e be now (fst w) (snd w) us)"
  by (simp add: run_items_def)

lemma run_items_append:
  "run_items e be now (xs @ ys) us = run_items e be now ys (run_items e be now xs us)"
  by (simp add: run_items_def)

lemma items_loop_run:
  "items_loop e be now dataType its us = run_items e be now (map (Pair dataType) its) us"
  by (induction its arbitrary: us) simp_all

lemma dataTypes_loop_run:
  "dataTypes_loop e be now data dataTypes us = run_items e be now (work_items data dataTypes) us"
proof (induction dataTypes arbitrary: us)
  case Nil
  then show ?case by (simp add: work_items_def)
next
  case (Cons dataType rest)
  have split: "work_items data (dataType # rest) =
      (case map_of data dataType of Some (Arr its) \<Rightarrow> map (Pair dataType) its
         | Some Not_array \<Rightarrow> [] | None \<Rightarrow> []) @ work_items data rest"
    by (simp add: work_items_def)
  show ?case
    by (simp add: Cons.IH split run_items_append items_loop_run
        split: option.split jsval.split)
qed

lemma exits_exclusive:
  "breaks e be now w us \<or> conflicting e be now w us \<or> thrown e be now w us \<noteq> None"
  by (simp add: breaks_def conflicting_def thrown_def split: switch_exit.split)

lemma process_item_breaks:
  assumes "breaks e be now w us"
  shows "length (successful (us_results (process_item e be now (fst w) (snd w) us)))
           = Suc (length (successful (us_results us)))"
    and "failed (us_results (process_item e be now (fst w) (snd w) us)) = failed (us_results us)"
    and "conflicted (us_results (process_item e be now (fst w) (snd w) us))
           = conflicted (us_results us)"
    and "errors (us_syncLog (process_item e be now (fst w) (snd w) us)) = errors (us_syncLog us)"
    and "conflicts (us_syncLog (process_item e be now (fst w) (snd w) us))
           = conflicts (us_syncLog us)"
    and "status (us_syncLog (process_item e be now (fst w) (snd w) us)) = status (us_syncLog us)"
    and "progress (us_syncLog (process_item e be now (fst w) (snd w) us)) =
           recompute_percentage ((progress (us_syncLog us))
             \<lparr>processedItems := int (Suc (length (successful (us_results us))))
                                 + int (length (failed (us_results us))),
              successfulItems := int (Suc (length (successful (us_results us)))),
              failedItems := int (length (failed (us_results us)))\<rparr>)"
  using assms
  by (auto simp: breaks_def process_item_def Let_def split: switch_exit.splits)

lemma process_item_thrown:
  assumes "thrown e be now w us = Some msg"
  shows "process_item e be now (fst w) (snd w) us =
           us\<lparr>us_results := (us_results us)\<lparr>failed := failed (us_results us) @
                 [\<lparr>f_itemId = item_ref (snd w), f_dataType = fst w, f_error = msg\<rparr>]\<rparr>,
              us_syncLog := addError ''ITEM_PROCESSING_ERROR'' msg Medium (Some (fst w))
                              (item_ref (snd w)) now (us_syncLog us)\<rparr>"
  using assms
  by (auto simp: thrown_def process_item_def split: switch_exit.splits)

lemma process_item_conflicting:
  assumes "conflicting e be now w us"
  shows "us_store (process_item e be now (fst w) (snd w) us) = us_store us"
    and "successful (us_results (process_item e be now (fst w) (snd w) us))
           = successful (us_results us)"
    and "failed (us_results (process_item e be now (fst w) (snd w) us)) = failed (us_results us)"
    and "conflicted (us_results (process_item e be now (fst w) (snd w) us))
           = conflicted (us_results us) @
               [\<lparr>k_itemId = item_ref (snd w), k_dataType = fst w,
                 k_reason = ''concurrent_modification''\<rparr>]"
    and "errors (us_syncLog (process_item e be now (fst w) (snd w) us)) = errors (us_syncLog us)"
    and "length (conflicts (us_syncLog (process_item e be now (fst w) (snd w) us)))
           = Suc (length (conflicts (us_syncLog us)))"
    and "status (us_syncLog (process_item e be now (fst w) (snd w) us)) = status (us_syncLog us)"
    and "progress (us_syncLog (process_item e be now (fst w) (snd w) us))
           = recompute_percentage (progress (us_syncLog us))"
  using assms
  by (auto simp: conflicting_def process_item_def split: switch_exit.splits)

lemma process_item_store:
  "us_store (process_item e be now dataType it us) =
     (case switch e be now dataType it (us_store us) of
        Break serverId st' \<Rightarrow> st' | Conflict_continue d \<Rightarrow> us_store us
      | Throw msg \<Rightarrow> us_store us)"
  by (simp add: process_item_def Let_def split: switch_exit.split)

lemma unsupported_thrown:
  assumes "fst w \<notin> set [''activities'', ''diagnoses'', ''user_profile'']"
  shows "thrown e be now w us = Some (''Unsupported data type: '' @ fst w)"
  using assms by (simp add: thrown_def switch_def)


lemma upload_Some:
  assumes "r_data req = Some data"
  shows "upload e be now req st =
     (let us = run_items e be now (work_items data (r_dataTypes req))
                 (upload_start e now req data st);
          status' = (if failed (us_results us) = [] then Completed else Partial);
          final = markCompleted status' now (us_syncLog us)
      in \<lparr>up_response = Upload_ok status' (us_results us), up_syncLog = Some final,
          up_store = (us_store us)\<lparr>db_syncLogs := db_syncLogs (us_store us) @ [final]\<rparr>\<rparr>)"
  using assms by (simp add: upload_def dataTypes_loop_run Let_def)

lemma upload_start_fields [simp]:
  "us_store (upload_start e now req data st) = st\<lparr>db_next_oid := Suc (db_next_oid st)\<rparr>"
  "us_results (upload_start e now req data st) = \<lparr>successful = [], failed = [], conflicted = []\<rparr>"
  "errors (us_syncLog (upload_start e now req data st)) = []"
  "conflicts (us_syncLog (upload_start e now req data st)) = []"
  "status (us_syncLog (upload_start e now req data st)) = In_progress"
  "progress (us_syncLog (upload_start e now req data st)) =
     recompute_percentage (default_progress\<lparr>totalItems := count_items data\<rparr>)"
  by (simp_all add: upload_start_def new_SyncLog_def)

text \<open>
  Claim C3. An upload whose body has \<^verbatim>\<open>data\<close> runs both loops to the end; its session
  is then closed with status \<^verbatim>\<open>completed\<close> when no item failed (the list
  \<^verbatim>\<open>results.failed\<close> is empty) and \<^verbatim>\<open>partial\<close> otherwise, and the response carries
  that status. In particular, for every batch of five items of which the third is of a
  type the switch does not support while the other four reach their \<^verbatim>\<open>break\<close>, the
  session ends \<^verbatim>\<open>partial\<close> with \<^verbatim>\<open>failedItems = 1\<close>, \<^verbatim>\<open>successfulItems = 4\<close> and a
  single error entry, which names the third item and its data type.
\<close>

theorem upload_final_status:
  assumes "r_data req = Some data"
    and "out = upload e be now req st"
    and "fin = run_items e be now (work_items data (r_dataTypes req))
                 (upload_start e now req data st)"
  shows
    "(\<exists>log. up_syncLog out = Some log
         \<and> up_response out = Upload_ok (status log) (us_results fin)
         \<and> status log = (if length (failed (us_results fin)) = 0 then Completed else Partial))
     \<and> (\<forall>wa wb wc wd we sa sb sc sd se log.
           work_items data (r_dataTypes req) = [wa, wb, wc, wd, we]
         \<and> sa = upload_start e now req data st
         \<and> sb = process_item e be now (fst wa) (snd wa) sa
         \<and> sc = process_item e be now (fst wb) (snd wb) sb
         \<and> sd = process_item e be now (fst wc) (snd wc) sc
         \<and> se = process_item e be now (fst wd) (snd wd) sd
         \<and> breaks e be now wa sa \<and> breaks e be now wb sb
         \<and> fst wc \<notin> set [''activities'', ''diagnoses'', ''user_profile'']
         \<and> breaks e be now wd sd \<and> breaks e be now we se
         \<and> up_syncLog out = Some log
       \<longrightarrow> status log = Partial
           \<and> failedItems (progress log) = 1 \<and> successfulItems (progress log) = 4
           \<and> processedItems (progress log) = 5
           \<and> errors log =
               [\<lparr>e_timestamp = now, e_code = ''ITEM_PROCESSING_ERROR'',
                 e_message = ''Unsupported data type: '' @ fst wc, e_severity = Medium,
                 e_dataType = Some (fst wc), e_itemId = item_ref (snd wc),
                 e_retryable = True, e_stack = None\<rparr>])"
proof (intro conjI allI impI)
  show "\<exists>log. up_syncLog out = Some log
         \<and> up_response out = Upload_ok (status log) (us_results fin)
         \<and> status log = (if length (failed (us_results fin)) = 0 then Completed else Partial)"
    by (simp add: assms(2,3) upload_Some [OF assms(1)] Let_def)
next
  fix wa wb wc wd we sa sb sc sd se log
  assume h: "work_items data (r_dataTypes req) = [wa, wb, wc, wd, we]
         \<and> sa = upload_start e now req data st
         \<and> sb = process_item e be now (fst wa) (snd wa) sa
         \<and> sc = process_item e be now (fst wb) (snd wb) sb
         \<and> sd = process_item e be now (fst wc) (snd wc) sc
         \<and> se = process_item e be now (fst wd) (snd wd) sd
         \<and> breaks e be now wa sa \<and> breaks e be now wb sb
         \<and> fst wc \<notin> set [''activities'', ''diagnoses'', ''user_profile'']
         \<and> breaks e be now wd sd \<and> breaks e be now we se
         \<and> up_syncLog out = Some log"
  from h have ws: "work_items data (r_dataTypes req) = [wa, wb, wc, wd, we]"
    and e0: "sa = upload_start e now req data st"
    and e1: "sb = process_item e be now (fst wa) (snd wa) sa"
    and e2: "sc = process_item e be now (fst wb) (snd wb) sb"
    and e3: "sd = process_item e be now (fst wc) (snd wc) sc"
    and e4: "se = process_item e be now (fst wd) (snd wd) sd"
    and br1: "breaks e be now wa sa" and br2: "breaks e be now wb sb"
    and un3: "fst wc \<notin> set [''activities'', ''diagnoses'', ''user_profile'']"
    and br4: "breaks e be now wd sd" and br5: "breaks e be now we se"
    and lg: "up_syncLog out = Some log"
    by blast+
  define sf where "sf = process_item e be now (fst we) (snd we) se"
  have fin: "fin = sf"
    by (simp add: assms(3) ws sf_def e4 e3 e2 e1 e0)
  note b1 = process_item_breaks [OF br1, folded e1]
  note b2 = process_item_breaks [OF br2, folded e2]
  note t3 = process_item_thrown [OF unsupported_thrown [OF un3], of e be now sc, folded e3]
  note b4 = process_item_breaks [OF br4, folded e4]
  note b5 = process_item_breaks [OF br5, folded sf_def]
  have f0: "failed (us_results sa) = []" "successful (us_results sa) = []"
    "errors (us_syncLog sa) = []"
    by (simp_all add: e0)
  have l1: "length (successful (us_results sb)) = 1" "failed (us_results sb) = []"
    "errors (us_syncLog sb) = []"
    using b1 f0 by simp_all
  have l2: "length (successful (us_results sc)) = 2" "failed (us_results sc) = []"
    "errors (us_syncLog sc) = []"
    using b2 l1 by simp_all
  have l3: "length (successful (us_results sd)) = 2" "length (failed (us_results sd)) = 1"
    "errors (us_syncLog sd) =
               [\<lparr>e_timestamp = now, e_code = ''ITEM_PROCESSING_ERROR'',
                 e_message = ''Unsupported data type: '' @ fst wc, e_severity = Medium,
                 e_dataType = Some (fst wc), e_itemId = item_ref (snd wc),
                 e_retryable = True, e_stack = None\<rparr>]"
    using l2 by (simp_all add: t3)
  have l4: "length (successful (us_results se)) = 3" "length (failed (us_results se)) = 1"
    "errors (us_syncLog se) = errors (us_syncLog sd)"
    using b4 l3 by simp_all
  have l5: "length (successful (us_results sf)) = 4" "length (failed (us_results sf)) = 1"
    "errors (us_syncLog sf) = errors (us_syncLog sd)"
    "successfulItems (progress (us_syncLog sf)) = 4"
    "failedItems (progress (us_syncLog sf)) = 1"
    "processedItems (progress (us_syncLog sf)) = 5"
    using b5 l4 by simp_all
  have ne: "failed (us_results sf) \<noteq> []"
    using l5(2) by auto
  have log: "log = markCompleted Partial now (us_syncLog sf)"
    using lg ne by (simp add: assms(2) upload_Some [OF assms(1)] Let_def fin [unfolded assms(3)])
  show "status log = Partial" "failedItems (progress log) = 1"
    "successfulItems (progress log) = 4" "processedItems (progress log) = 5"
    "errors log =
               [\<lparr>e_timestamp = now, e_code = ''ITEM_PROCESSING_ERROR'',
                 e_message = ''Unsupported data type: '' @ fst wc, e_severity = Medium,
                 e_dataType = Some (fst wc), e_itemId = item_ref (snd wc),
                 e_retryable = True, e_stack = None\<rparr>]"
    by (simp_all add: log l5 l3)
qed


theorem upload_final_status_witness:
  "\<exists>log. up_syncLog (upload ex_env ex_backend 300
               (ex_upload_req [''user_profile'', ''preferences'', ''activities''] ex_batch5)
               (ex_db [])) = Some log
     \<and> status log = Partial \<and> failedItems (progress log) = 1
     \<and> successfulItems (progress log) = 4 \<and> map e_itemId (errors log) = [Some ''i3'']"
proof -
  let ?req = "ex_upload_req [''user_profile'', ''preferences'', ''activities''] ex_batch5"
  let ?sa = "upload_start ex_env 300 ?req ex_batch5 (ex_db [])"
  let ?sb = "process_item ex_env ex_backend 300 ''user_profile'' (ex_profile_item ''i1'' ''Ann'') ?sa"
  let ?sc = "process_item ex_env ex_backend 300 ''user_profile'' (ex_item ''i2'') ?sb"
  let ?sd = "process_item ex_env ex_backend 300 ''preferences'' (ex_item ''i3'') ?sc"
  let ?se = "process_item ex_env ex_backend 300 ''activities'' (ex_activity_item ''i4'' 50) ?sd"
  have rd: "r_data ?req = Some ex_batch5"
    by (simp add: ex_upload_req_def)
  note T = upload_final_status [OF rd refl refl, of ex_env ex_backend 300 "ex_db []"]
  from T obtain log where lg: "up_syncLog (upload ex_env ex_backend 300 ?req (ex_db [])) = Some log"
    by blast
  have ws: "work_items ex_batch5 (r_dataTypes ?req) =
      [(''user_profile'', ex_profile_item ''i1'' ''Ann''), (''user_profile'', ex_item ''i2''),
       (''preferences'', ex_item ''i3''), (''activities'', ex_activity_item ''i4'' 50),
       (''activities'', ex_activity_item ''i5'' 60)]"
    by (simp add: work_items_def ex_batch5_def ex_upload_req_def)
  have sa: "us_store ?sa = (ex_db [])\<lparr>db_next_oid := 11\<rparr>"
    by (simp add: ex_db_def)
  have fields: "truthy (i_firstName (ex_profile_item ''i1'' ''Ann''))"
    "\<And>n. \<not> truthy (i_firstName (ex_item n))" "\<And>n. \<not> truthy (i_lastName (ex_item n))"
    "\<And>n. \<not> truthy (i_facility (ex_item n))" "\<And>n. \<not> truthy (i_state (ex_item n))"
    "\<And>n. \<not> truthy (i_contactInfo (ex_item n))"
    by (simp_all add: ex_profile_item_def ex_item_def truthy_def)
  have ok: "\<And>x. user_update_err ex_backend x = None" "\<And>x. activity_findOne_err ex_backend x = None"
    "\<And>x. activity_save_err ex_backend x = None"
    by (simp_all add: ex_backend_def)
  have ba: "breaks ex_env ex_backend 300 (''user_profile'', ex_profile_item ''i1'' ''Ann'') ?sa"
    by (simp add: breaks_def switch_def user_profile_case_def fields ok)
  have sb: "us_store ?sb = (ex_db [])\<lparr>db_next_oid := 11\<rparr>"
    by (simp add: process_item_store switch_def user_profile_case_def fields ok)
       (simp add: ex_db_def)
  have bb: "breaks ex_env ex_backend 300 (''user_profile'', ex_item ''i2'') ?sb"
    by (simp add: breaks_def switch_def user_profile_case_def fields)
  have sc: "us_store ?sc = (ex_db [])\<lparr>db_next_oid := 11\<rparr>"
    by (simp add: process_item_store [of _ _ _ _ "ex_item ''i2''"] switch_def
        user_profile_case_def fields sb)
  have sd: "us_store ?sd = (ex_db [])\<lparr>db_next_oid := 11\<rparr>"
    by (simp add: process_item_store [of _ _ _ "''preferences''"] switch_def sc)
  have bd: "breaks ex_env ex_backend 300 (''activities'', ex_activity_item ''i4'' 50) ?sd"
    by (simp add: breaks_def switch_def activities_case_def ok sd)
       (simp add: ex_db_def ok Let_def)
  have se: "us_store ?se =
              \<lparr>db_activities = [new_activity ex_env 300 11 (ex_activity_item ''i4'' 50)],
               db_diagnoses = [], db_users = [], db_syncLogs = [], db_next_oid = 12\<rparr>"
    by (simp add: process_item_store [of _ _ _ "''activities''"] switch_def activities_case_def
        ok sd) (simp add: ex_db_def ok Let_def new_activity_def)
  have be: "breaks ex_env ex_backend 300 (''activities'', ex_activity_item ''i5'' 60) ?se"
    by (simp add: breaks_def switch_def activities_case_def ok se)
       (simp add: ok Let_def activity_matches_def new_activity_def ex_activity_item_def
          ex_item_def)
  have un: "fst (''preferences'', ex_item ''i3'')
              \<notin> set [''activities'', ''diagnoses'', ''user_profile'']"
    by simp
  note C = T [THEN conjunct2, rule_format,
      where wa = "(''user_profile'', ex_profile_item ''i1'' ''Ann'')"
        and wb = "(''user_profile'', ex_item ''i2'')"
        and wc = "(''preferences'', ex_item ''i3'')"
        and wd = "(''activities'', ex_activity_item ''i4'' 50)"
        and we = "(''activities'', ex_activity_item ''i5'' 60)"
        and sa = ?sa and sb = ?sb and sc = ?sc and sd = ?sd and se = ?se and log = log]
  have fin: "status log = Partial \<and> failedItems (progress log) = 1
      \<and> successfulItems (progress log) = 4 \<and> map e_itemId (errors log) = [Some ''i3'']"
    using C ws ba bb bd be un lg by (simp add: item_ref_def ex_item_def truthy_def)
  show ?thesis
    by (rule exI [of _ log], rule conjI, rule lg, rule fin)
qed


section \<open>Failure isolation\<close>











section \<open>Conflicts and the progress counters\<close>






lemma recompute_percentage_counters:
  "processedItems (recompute_percentage p) = processedItems p"
  "successfulItems (recompute_percentage p) = successfulItems p"
  "failedItems (recompute_percentage p) = failedItems p"
  by simp_all


lemma count_items_sum:
  "count_items data =
     sum_list (map (\<lambda>kv. case snd kv of Arr its \<Rightarrow> int (length its) | Not_array \<Rightarrow> 0) data)"
proof -
  have "foldl (\<lambda>sum items. sum + (case items of Arr its \<Rightarrow> int (length its) | Not_array \<Rightarrow> 0))
          a (map snd data)
        = a + sum_list (map (\<lambda>kv. case snd kv of Arr its \<Rightarrow> int (length its)
                                   | Not_array \<Rightarrow> 0) data)" for a
    by (induction data arbitrary: a) simp_all
  then show ?thesis by (simp add: count_items_def)
qed

lemma count_items_nonneg: "0 \<le> count_items data"
  unfolding count_items_sum
  by (rule sum_list_nonneg) (auto split: jsval.split)




lemma Math_round_zero [simp]: "Math_round 0 = 0"
  by (simp add: Math_round_def)





section \<open>The announced total and the records processed\<close>














section \<open>The progress counters during an upload\<close>

lemma Math_round_nonneg:
  assumes "0 \<le> x"
  shows "0 \<le> Math_round x"
  using assms by (simp add: Math_round_def)

lemma recompute_consistent_id:
  assumes "progress_consistent p"
  shows "recompute_percentage p = p"
  using assms by (simp add: progress_consistent_def recompute_percentage_def)

lemma consistent_after_update:
  assumes "progress_consistent p" and "skippedItems p = 0" and "0 \<le> a" and "0 \<le> b"
  shows "progress_consistent
           (recompute_percentage (p\<lparr>processedItems := a + b, successfulItems := a,
                                     failedItems := b\<rparr>))"
    and "skippedItems
           (recompute_percentage (p\<lparr>processedItems := a + b, successfulItems := a,
                                     failedItems := b\<rparr>)) = 0"
  using assms
  by (simp_all add: progress_consistent_def recompute_percentage_def)

lemma process_item_consistent:
  assumes "progress_consistent (progress (us_syncLog us))"
    and "skippedItems (progress (us_syncLog us)) = 0"
  shows "progress_consistent (progress (us_syncLog (process_item e be now dataType it us)))"
    and "skippedItems (progress (us_syncLog (process_item e be now dataType it us))) = 0"
proof -
  let ?w = "(dataType, it)"
  consider (b) "breaks e be now ?w us" | (c) "conflicting e be now ?w us"
    | (t) msg where "thrown e be now ?w us = Some msg"
    using exits_exclusive [of e be now ?w us] by auto
  then have "progress_consistent (progress (us_syncLog (process_item e be now dataType it us)))
    \<and> skippedItems (progress (us_syncLog (process_item e be now dataType it us))) = 0"
  proof cases
    case b
    from process_item_breaks(7) [OF b] show ?thesis
      using consistent_after_update [OF assms,
          of "int (Suc (length (successful (us_results us))))"
             "int (length (failed (us_results us)))"]
      by simp
  next
    case c
    from process_item_conflicting(8) [OF c] show ?thesis
      using assms by (simp add: recompute_consistent_id)
  next
    case t
    from process_item_thrown [OF t] show ?thesis
      using assms by (simp add: recompute_consistent_id)
  qed
  then show "progress_consistent (progress (us_syncLog (process_item e be now dataType it us)))"
    and "skippedItems (progress (us_syncLog (process_item e be now dataType it us))) = 0"
    by simp_all
qed

lemma run_items_consistent:
  assumes "progress_consistent (progress (us_syncLog us))"
    and "skippedItems (progress (us_syncLog us)) = 0"
  shows "progress_consistent (progress (us_syncLog (run_items e be now ws us)))
       \<and> skippedItems (progress (us_syncLog (run_items e be now ws us))) = 0"
  using assms
proof (induction ws arbitrary: us)
  case Nil
  then show ?case by simp
next
  case (Cons w ws)
  from Cons.IH [OF process_item_consistent [OF Cons.prems]] show ?case
    by simp
qed

lemma upload_start_consistent:
  "progress_consistent (progress (us_syncLog (upload_start e now req data st)))"
  "skippedItems (progress (us_syncLog (upload_start e now req data st))) = 0"
  using count_items_nonneg [of data]
  by (simp_all add: progress_consistent_def recompute_percentage_def default_progress_def)

text \<open>
  The progress invariant of the data model holds in every state an upload goes through
  and in the closed session; after an item that reaches its \<^verbatim>\<open>break\<close> the three
  counters are the lengths of the result lists at that moment.
\<close>

lemma progress_consistent_run:
  assumes "r_data req = Some data"
    and "out = upload e be now req st"
    and "start = upload_start e now req data st"
  shows
    "(\<forall>ws rest. work_items data (r_dataTypes req) = ws @ rest
        \<longrightarrow> progress_consistent (progress (us_syncLog (run_items e be now ws start))))
     \<and> (\<forall>ws w rest. work_items data (r_dataTypes req) = ws @ w # rest
          \<and> breaks e be now w (run_items e be now ws start)
        \<longrightarrow> processedItems (progress (us_syncLog (run_items e be now (ws @ [w]) start)))
              = int (length (successful (us_results (run_items e be now (ws @ [w]) start))))
                + int (length (failed (us_results (run_items e be now (ws @ [w]) start))))
            \<and> successfulItems (progress (us_syncLog (run_items e be now (ws @ [w]) start)))
              = int (length (successful (us_results (run_items e be now (ws @ [w]) start))))
            \<and> failedItems (progress (us_syncLog (run_items e be now (ws @ [w]) start)))
              = int (length (failed (us_results (run_items e be now (ws @ [w]) start)))))
     \<and> (\<exists>log. up_syncLog out = Some log \<and> progress_consistent (progress log))"
proof (intro conjI allI impI)
  fix ws rest
  show "progress_consistent (progress (us_syncLog (run_items e be now ws start)))"
    using run_items_consistent [OF upload_start_consistent] by (simp add: assms(3))
next
  fix ws w rest
  assume h: "work_items data (r_dataTypes req) = ws @ w # rest
          \<and> breaks e be now w (run_items e be now ws start)"
  note b = process_item_breaks [OF conjunct2 [OF h]]
  show "processedItems (progress (us_syncLog (run_items e be now (ws @ [w]) start)))
              = int (length (successful (us_results (run_items e be now (ws @ [w]) start))))
                + int (length (failed (us_results (run_items e be now (ws @ [w]) start))))"
    "successfulItems (progress (us_syncLog (run_items e be now (ws @ [w]) start)))
              = int (length (successful (us_results (run_items e be now (ws @ [w]) start))))"
    "failedItems (progress (us_syncLog (run_items e be now (ws @ [w]) start)))
              = int (length (failed (us_results (run_items e be now (ws @ [w]) start))))"
    by (simp_all add: run_items_append b)
next
  have "progress_consistent (progress (us_syncLog
          (run_items e be now (work_items data (r_dataTypes req)) start)))"
    using run_items_consistent [OF upload_start_consistent] by (simp add: assms(3))
  then show "\<exists>log. up_syncLog out = Some log \<and> progress_consistent (progress log)"
    by (simp add: assms(2,3) upload_Some [OF assms(1)] Let_def recompute_consistent_id)
qed


lemma percentage_example:
  "percentage (recompute_percentage
      \<lparr>totalItems = 10, processedItems = 4, successfulItems = 3, failedItems = 1,
       skippedItems = 0, percentage = 0\<rparr>) = 40"
  by (simp add: recompute_percentage_def Math_round_quotient [of 10 4, simplified])

lemma process_item_thrown_counters:
  assumes "thrown e be now w us = Some msg"
  shows "processedItems (progress (us_syncLog (process_item e be now (fst w) (snd w) us)))
           = processedItems (progress (us_syncLog us))"
    and "successfulItems (progress (us_syncLog (process_item e be now (fst w) (snd w) us)))
           = successfulItems (progress (us_syncLog us))"
    and "failedItems (progress (us_syncLog (process_item e be now (fst w) (snd w) us)))
           = failedItems (progress (us_syncLog us))"
  by (simp_all add: process_item_thrown [OF assms])

text \<open>
  Claim C7 at a concrete request: one record of the unsupported type \<^verbatim>\<open>preferences\<close>.
  The item is processed and fails (one entry in \<^verbatim>\<open>results.failed\<close>, one error entry,
  status \<^verbatim>\<open>partial\<close>), but \<^verbatim>\<open>updateProgress\<close> is only reached after a successful
  item: the session ends with \<^verbatim>\<open>totalItems = 1\<close> and \<^verbatim>\<open>processedItems\<close>,
  \<^verbatim>\<open>failedItems\<close> and \<^verbatim>\<open>percentage\<close> still 0.
\<close>

theorem failed_item_leaves_counters:
  "\<exists>log r. up_syncLog (upload ex_env ex_backend 300
                (ex_upload_req [''preferences''] [(''preferences'', Arr [ex_item ''i3''])])
                (ex_db [])) = Some log
     \<and> up_response (upload ex_env ex_backend 300
                (ex_upload_req [''preferences''] [(''preferences'', Arr [ex_item ''i3''])])
                (ex_db [])) = Upload_ok Partial r
     \<and> length (failed r) = 1 \<and> length (errors log) = 1 \<and> status log = Partial
     \<and> totalItems (progress log) = 1 \<and> processedItems (progress log) = 0
     \<and> failedItems (progress log) = 0 \<and> percentage (progress log) = 0"
proof -
  let ?data = "[(''preferences'', Arr [ex_item ''i3''])]"
  let ?req = "ex_upload_req [''preferences''] ?data"
  have rd: "r_data ?req = Some ?data" and dt: "r_dataTypes ?req = [''preferences'']"
    by (simp_all add: ex_upload_req_def)
  have wk: "work_items ?data [''preferences''] = [(''preferences'', ex_item ''i3'')]"
    by (simp add: work_items_def)
  have th: "thrown ex_env ex_backend 300 (''preferences'', ex_item ''i3'') us
              = Some ''Unsupported data type: preferences''" for us
    by (simp add: thrown_def switch_def)
  show ?thesis
    by (simp add: upload_Some [OF rd] dt wk Let_def process_item_thrown [OF th, simplified]
        default_progress_def count_items_def recompute_percentage_def)
qed


section \<open>The download: the session's progress\<close>

lemma fetch_type_log:
  "status (snd (fetch_type e be now lastSync st dataType acc)) = status (snd acc)"
  "progress (snd (fetch_type e be now lastSync st dataType acc)) = progress (snd acc)
   \<or> progress (snd (fetch_type e be now lastSync st dataType acc))
       = recompute_percentage (progress (snd acc))"
  by (simp_all add: fetch_type_def split: option.split)

lemma fetch_type_total:
  "totalItems (progress (snd (fetch_type e be now lastSync st dataType acc)))
     = totalItems (progress (snd acc))"
  using fetch_type_log(2) [of e be now lastSync st dataType acc] by auto

lemma fetch_loop_total:
  "totalItems (progress (snd (fetch_loop e be now lastSync st dataTypes acc)))
     = totalItems (progress (snd acc))"
  by (induction dataTypes arbitrary: acc) (simp_all add: fetch_type_total)

lemma download_progress:
  "status (dn_syncLog (download e be now req st)) = Completed"
  "processedItems (progress (dn_syncLog (download e be now req st)))
     = dn_totalItems (download e be now req st)"
  "successfulItems (progress (dn_syncLog (download e be now req st)))
     = dn_totalItems (download e be now req st)"
  "failedItems (progress (dn_syncLog (download e be now req st))) = 0"
  "dn_totalItems (download e be now req st) = aggregate_count (dn_data (download e be now req st))"
  "totalItems (progress (dn_syncLog (download e be now req st))) = 0"
  by (simp_all add: download_def Let_def fetch_loop_total new_SyncLog_def default_progress_def)


lemma fetch_type_progress_zero:
  assumes "totalItems (progress (snd acc)) = 0"
  shows "progress (snd (fetch_type e be now lastSync st dataType acc)) = progress (snd acc)"
  using assms fetch_type_log(2) [of e be now lastSync st dataType acc]
  by (auto simp: recompute_percentage_def)

lemma fetch_loop_progress_zero:
  assumes "totalItems (progress (snd acc)) = 0"
  shows "progress (snd (fetch_loop e be now lastSync st dataTypes acc)) = progress (snd acc)"
  using assms
  by (induction dataTypes arbitrary: acc) (simp_all add: fetch_type_progress_zero)

text \<open>
  Claim C5 on the code. Every download ends \<^verbatim>\<open>completed\<close> with \<^verbatim>\<open>processedItems\<close>
  and \<^verbatim>\<open>successfulItems\<close> set to the aggregate count of what was fetched; but
  \<^verbatim>\<open>updateProgress\<close> has no parameter for \<^verbatim>\<open>totalItems\<close> and the session was created
  without one, so \<^verbatim>\<open>progress.totalItems\<close> keeps its default 0 (and the percentage stays
  0) whatever was fetched. On the store above with watermark 100 one record is fetched:
  the aggregate count is 1 while \<^verbatim>\<open>totalItems\<close> is 0.
\<close>

theorem download_progress_totalItems:
  "processedItems (progress (dn_syncLog (download e be now req st)))
     = aggregate_count (dn_data (download e be now req st))
   \<and> successfulItems (progress (dn_syncLog (download e be now req st)))
     = aggregate_count (dn_data (download e be now req st))
   \<and> status (dn_syncLog (download e be now req st)) = Completed
   \<and> totalItems (progress (dn_syncLog (download e be now req st))) = 0
   \<and> percentage (progress (dn_syncLog (download e be now req st))) = 0
   \<and> aggregate_count (dn_data (download ex_env ex_backend 800 ex_download_req ex_download_db)) = 1"
proof -
  have pct: "percentage (progress (dn_syncLog (download e be now req st))) = 0"
    by (simp add: download_def Let_def recompute_percentage_def fetch_loop_total
        fetch_loop_progress_zero new_SyncLog_def default_progress_def)
  have ex: "aggregate_count (dn_data (download ex_env ex_backend 800 ex_download_req
              ex_download_db)) = 1"
    by (simp add: download_def Let_def ex_download_req_def fetch_type_def ex_backend_def
        find_activities_def ex_download_db_def ex_activity_doc_def ex_env_def lastSync_of_def
        js_gt_def aggregate_count_def)
  show ?thesis
    using download_progress [of e be now req st] pct ex by simp
qed


section \<open>The download: what is fetched\<close>

lemma fetch_loop_activities:
  "dl_activities (fst (fetch_loop e be now lastSync st dataTypes acc)) =
     (if ''activities'' \<in> set dataTypes \<and> fetch_err be ''activities'' = None
      then Some (find_activities e lastSync st) else dl_activities (fst acc))"
proof (induction dataTypes arbitrary: acc)
  case Nil
  then show ?case by simp
next
  case (Cons dataType rest)
  show ?case
    by (simp add: Cons.IH) (simp add: fetch_type_def split: option.split)
qed

lemma fetch_loop_diagnoses:
  "dl_diagnoses (fst (fetch_loop e be now lastSync st dataTypes acc)) =
     (if ''diagnoses'' \<in> set dataTypes \<and> fetch_err be ''diagnoses'' = None
      then Some (find_diagnoses e lastSync st) else dl_diagnoses (fst acc))"
proof (induction dataTypes arbitrary: acc)
  case Nil
  then show ?case by simp
next
  case (Cons dataType rest)
  show ?case
    by (simp add: Cons.IH) (simp add: fetch_type_def split: option.split)
qed

lemma fetch_type_user_profile:
  assumes "dl_user_profile (fst (fetch_type e be now lastSync st dataType acc)) = Some u"
  shows "dl_user_profile (fst acc) = Some u
       \<or> (dataType = ''user_profile'' \<and> find (\<lambda>x. u_oid x = req_userId e) (db_users st) = Some u
           \<and> js_gt (u_updatedAt u) lastSync)"
  using assms by (auto simp: fetch_type_def split: option.splits if_splits)

lemma fetch_loop_user_profile:
  assumes "dl_user_profile (fst (fetch_loop e be now lastSync st dataTypes acc)) = Some u"
  shows "dl_user_profile (fst acc) = Some u
       \<or> (''user_profile'' \<in> set dataTypes
           \<and> find (\<lambda>x. u_oid x = req_userId e) (db_users st) = Some u
           \<and> js_gt (u_updatedAt u) lastSync)"
  using assms
proof (induction dataTypes arbitrary: acc)
  case Nil
  then show ?case by simp
next
  case (Cons dataType rest)
  from Cons.IH [of "fetch_type e be now lastSync st dataType acc"] Cons.prems
  have "dl_user_profile (fst (fetch_type e be now lastSync st dataType acc)) = Some u
       \<or> (''user_profile'' \<in> set rest
           \<and> find (\<lambda>x. u_oid x = req_userId e) (db_users st) = Some u
           \<and> js_gt (u_updatedAt u) lastSync)"
    by simp
  then show ?case
    using fetch_type_user_profile [of e be now lastSync st dataType acc u] by auto
qed

lemma find_activities_sound:
  "list_all (\<lambda>a. a \<in> set (db_activities st) \<and> a_userId a = req_userId e
                  \<and> a_syncStatus a = Synced \<and> js_gt (a_updatedAt a) lastSync)
     (find_activities e lastSync st)"
  "length (find_activities e lastSync st) \<le> 1000"
  by (auto simp: find_activities_def list_all_iff dest!: in_set_takeD)

lemma find_diagnoses_sound:
  "list_all (\<lambda>d. d \<in> set (db_diagnoses st) \<and> d_userId d = req_userId e
                  \<and> d_syncStatus d = Synced \<and> js_gt (d_updatedAt d) lastSync)
     (find_diagnoses e lastSync st)"
  "length (find_diagnoses e lastSync st) \<le> 500"
  by (auto simp: find_diagnoses_def list_all_iff dest!: in_set_takeD)

lemma js_gt_strict: "js_gt a lastSync \<longleftrightarrow> (\<exists>t. lastSync = Some t \<and> t < a)"
  by (simp add: js_gt_def split: option.split)


lemma find_user_sound:
  assumes "find (\<lambda>x. u_oid x = req_userId e) (db_users st) = Some u"
  shows "u \<in> set (db_users st)" and "u_oid u = req_userId e"
  using assms by (auto simp: find_Some_iff)

text \<open>
  Claim C4. With the watermark \<open>lastSync\<close> (the epoch when the request gives none), what
  a download returns under \<^verbatim>\<open>activities\<close> are stored activities owned by the caller,
  with \<^verbatim>\<open>syncStatus = synced\<close> and \<^verbatim>\<open>updatedAt\<close> strictly after the watermark, at
  most 1000 of them; under \<^verbatim>\<open>diagnoses\<close> the same with at most 500; a key is present
  only for a requested type. (The profile, which has no \<^verbatim>\<open>syncStatus\<close>, is returned
  when it is the caller's and was updated strictly after the watermark.) When the fetch of
  a requested type goes through, the records returned are the matching ones up to the
  cap: their number is the smaller of the cap and the number of matching records.
\<close>

theorem download_watermark:
  assumes "out = download e be now req st"
    and "lastSync = lastSync_of (q_lastSyncTimestamp req)"
  shows
    "(q_lastSyncTimestamp req = Missing \<longrightarrow> lastSync = Some 0)
     \<and> (\<forall>xs. dl_activities (dn_data out) = Some xs \<longrightarrow>
           ''activities'' \<in> set (q_dataTypes req) \<and> length xs \<le> 1000
         \<and> list_all (\<lambda>a. a \<in> set (db_activities st) \<and> a_userId a = req_userId e
                          \<and> a_syncStatus a = Synced
                          \<and> (\<exists>t. lastSync = Some t \<and> t < a_updatedAt a)) xs)
     \<and> (\<forall>xs. dl_diagnoses (dn_data out) = Some xs \<longrightarrow>
           ''diagnoses'' \<in> set (q_dataTypes req) \<and> length xs \<le> 500
         \<and> list_all (\<lambda>d. d \<in> set (db_diagnoses st) \<and> d_userId d = req_userId e
                          \<and> d_syncStatus d = Synced
                          \<and> (\<exists>t. lastSync = Some t \<and> t < d_updatedAt d)) xs)
     \<and> (\<forall>u. dl_user_profile (dn_data out) = Some u \<longrightarrow>
           ''user_profile'' \<in> set (q_dataTypes req) \<and> u \<in> set (db_users st)
         \<and> u_oid u = req_userId e \<and> (\<exists>t. lastSync = Some t \<and> t < u_updatedAt u))
     \<and> (''activities'' \<in> set (q_dataTypes req) \<and> fetch_err be ''activities'' = None \<longrightarrow>
           dl_activities (dn_data out) = Some (find_activities e lastSync st)
         \<and> length (find_activities e lastSync st) =
             min 1000 (length (filter (\<lambda>a. a_userId a = req_userId e
                                           \<and> js_gt (a_updatedAt a) lastSync
                                           \<and> a_syncStatus a = Synced) (db_activities st))))
     \<and> (''diagnoses'' \<in> set (q_dataTypes req) \<and> fetch_err be ''diagnoses'' = None \<longrightarrow>
           dl_diagnoses (dn_data out) = Some (find_diagnoses e lastSync st)
         \<and> length (find_diagnoses e lastSync st) =
             min 500 (length (filter (\<lambda>d. d_userId d = req_userId e
                                          \<and> js_gt (d_updatedAt d) lastSync
                                          \<and> d_syncStatus d = Synced) (db_diagnoses st))))"
proof -
  let ?init = "(\<lparr>dl_activities = None, dl_diagnoses = None, dl_user_profile = None\<rparr>,
                save now (new_SyncLog e now (db_next_oid st) (q_sessionId req) (q_syncType req)
                            (q_operation req) (q_dataTypes req) 0))"
  have data: "dn_data out = fst (fetch_loop e be now lastSync st (q_dataTypes req) ?init)"
    by (simp add: assms download_def Let_def)
  have acts: "dl_activities (dn_data out) =
      (if ''activities'' \<in> set (q_dataTypes req) \<and> fetch_err be ''activities'' = None
       then Some (find_activities e lastSync st) else None)"
    by (simp add: data fetch_loop_activities)
  have diags: "dl_diagnoses (dn_data out) =
      (if ''diagnoses'' \<in> set (q_dataTypes req) \<and> fetch_err be ''diagnoses'' = None
       then Some (find_diagnoses e lastSync st) else None)"
    by (simp add: data fetch_loop_diagnoses)
  have c1: "q_lastSyncTimestamp req = Missing \<longrightarrow> lastSync = Some 0"
    by (simp add: assms(2) lastSync_of_def)
  have c2: "\<forall>xs. dl_activities (dn_data out) = Some xs \<longrightarrow>
           ''activities'' \<in> set (q_dataTypes req) \<and> length xs \<le> 1000
         \<and> list_all (\<lambda>a. a \<in> set (db_activities st) \<and> a_userId a = req_userId e
                          \<and> a_syncStatus a = Synced
                          \<and> (\<exists>t. lastSync = Some t \<and> t < a_updatedAt a)) xs"
    using find_activities_sound [where e = e and st = st and lastSync = lastSync]
    by (auto simp: acts js_gt_strict split: if_splits)
  have c3: "\<forall>xs. dl_diagnoses (dn_data out) = Some xs \<longrightarrow>
           ''diagnoses'' \<in> set (q_dataTypes req) \<and> length xs \<le> 500
         \<and> list_all (\<lambda>d. d \<in> set (db_diagnoses st) \<and> d_userId d = req_userId e
                          \<and> d_syncStatus d = Synced
                          \<and> (\<exists>t. lastSync = Some t \<and> t < d_updatedAt d)) xs"
    using find_diagnoses_sound [where e = e and st = st and lastSync = lastSync]
    by (auto simp: diags js_gt_strict split: if_splits)
  have c4: "\<forall>u. dl_user_profile (dn_data out) = Some u \<longrightarrow>
           ''user_profile'' \<in> set (q_dataTypes req) \<and> u \<in> set (db_users st)
         \<and> u_oid u = req_userId e \<and> (\<exists>t. lastSync = Some t \<and> t < u_updatedAt u)"
  proof (intro allI impI)
    fix u
    assume "dl_user_profile (dn_data out) = Some u"
    from fetch_loop_user_profile [OF this [unfolded data]]
    have "''user_profile'' \<in> set (q_dataTypes req)
           \<and> find (\<lambda>x. u_oid x = req_userId e) (db_users st) = Some u
           \<and> js_gt (u_updatedAt u) lastSync"
      by simp
    then show "''user_profile'' \<in> set (q_dataTypes req) \<and> u \<in> set (db_users st)
         \<and> u_oid u = req_userId e \<and> (\<exists>t. lastSync = Some t \<and> t < u_updatedAt u)"
      using find_user_sound [where e = e and st = st and u = u] by (simp add: js_gt_strict)
  qed
  have c5: "''activities'' \<in> set (q_dataTypes req) \<and> fetch_err be ''activities'' = None \<longrightarrow>
           dl_activities (dn_data out) = Some (find_activities e lastSync st)
         \<and> length (find_activities e lastSync st) =
             min 1000 (length (filter (\<lambda>a. a_userId a = req_userId e
                                           \<and> js_gt (a_updatedAt a) lastSync
                                           \<and> a_syncStatus a = Synced) (db_activities st)))"
    by (simp add: acts find_activities_def min.commute)
  have c6: "''diagnoses'' \<in> set (q_dataTypes req) \<and> fetch_err be ''diagnoses'' = None \<longrightarrow>
           dl_diagnoses (dn_data out) = Some (find_diagnoses e lastSync st)
         \<and> length (find_diagnoses e lastSync st) =
             min 500 (length (filter (\<lambda>d. d_userId d = req_userId e
                                          \<and> js_gt (d_updatedAt d) lastSync
                                          \<and> d_syncStatus d = Synced) (db_diagnoses st)))"
    by (simp add: diags find_diagnoses_def min.commute)
  from c1 c2 c3 c4 c5 c6 show ?thesis
    by (intro conjI)
qed

theorem download_watermark_witness:
  "dl_activities (dn_data (download ex_env ex_backend 800 ex_download_req ex_download_db))
     = Some [ex_activity_doc 1 ''u1'' 500 Synced]
   \<and> list_all (\<lambda>a. 100 < a_updatedAt a) [ex_activity_doc 1 ''u1'' 500 Synced]"
proof -
  note T = download_watermark [where e = ex_env and be = ex_backend and now = 800
      and req = ex_download_req and st = ex_download_db, OF refl refl]
  have ls: "lastSync_of (q_lastSyncTimestamp ex_download_req) = Some 100"
    by (simp add: ex_download_req_def lastSync_of_def)
  have hyp: "''activities'' \<in> set (q_dataTypes ex_download_req)
             \<and> fetch_err ex_backend ''activities'' = None"
    by (simp add: ex_download_req_def ex_backend_def)
  have fa: "find_activities ex_env (Some 100) ex_download_db = [ex_activity_doc 1 ''u1'' 500 Synced]"
    by (simp add: find_activities_def ex_download_db_def ex_activity_doc_def ex_env_def js_gt_def)
  note A = T [THEN conjunct2, THEN conjunct2, THEN conjunct2, THEN conjunct2, THEN conjunct1,
      rule_format, OF hyp, THEN conjunct1, unfolded ls fa]
  note B = T [THEN conjunct2, THEN conjunct1, rule_format, OF A, THEN conjunct2, THEN conjunct2,
      unfolded ls]
  have C: "list_all (\<lambda>a. 100 < a_updatedAt a) [ex_activity_doc 1 ''u1'' 500 Synced]"
    using B by simp
  from A C show ?thesis
    by (rule conjI)
qed


section \<open>Resolving conflicts\<close>

lemma find_first_match:
  assumes "list_all (\<lambda>x. \<not> P x) before" and "P c"
  shows "find P (before @ c # rest) = Some c"
    and "update_first P f (before @ c # rest) = before @ f c # rest"
  using assms by (induction before) simp_all

lemma filter_replace_others:
  assumes "key y = k"
  shows "filter (\<lambda>l. key l \<noteq> k) (map (\<lambda>l. if key l = k then y else l) xs)
           = filter (\<lambda>l. key l \<noteq> k) xs"
  using assms by (induction xs) simp_all

lemma filter_replace_absent:
  assumes "k \<notin> key ` set xs"
  shows "filter (\<lambda>l. key l = k) (map (\<lambda>l. if key l = k then y else l) xs) = []"
  using assms by (induction xs) auto

lemma filter_replace_by_key:
  assumes "distinct (map key xs)" and "x \<in> set xs" and "key x = k" and "key y = k"
  shows "filter (\<lambda>l. key l = k) (map (\<lambda>l. if key l = k then y else l) xs) = [y]"
  using assms
proof (induction xs)
  case Nil
  then show ?case by simp
next
  case (Cons a xs)
  show ?case
  proof (cases "key a = k")
    case True
    with Cons.prems(1) have "k \<notin> key ` set xs"
      by auto
    from filter_replace_absent [OF this] True Cons.prems(4) show ?thesis
      by simp
  next
    case False
    with Cons.prems have "x \<in> set xs" and "distinct (map key xs)"
      by auto
    from Cons.IH [OF this(2) this(1) Cons.prems(3,4)] False show ?thesis
      by simp
  qed
qed

lemma get_conflicts_all_unresolved:
  "list_all (\<lambda>lc. c_resolution (lc_conflict lc) = Manual_review) (get_conflicts e page limit st)"
  by (auto simp: get_conflicts_def Let_def list_all_iff unresolved_def)


lemma resolve_conflict_not_found:
  assumes "find (\<lambda>l. sl_oid l = rc_syncId req \<and> sl_userId l = req_userId e
                      \<and> sl_deviceId l = req_deviceId e) (db_syncLogs st) = None
           \<or> (\<exists>syncLog. find (\<lambda>l. sl_oid l = rc_syncId req \<and> sl_userId l = req_userId e
                      \<and> sl_deviceId l = req_deviceId e) (db_syncLogs st) = Some syncLog
                \<and> find (\<lambda>c. c_itemId c = rc_conflictItemId req) (conflicts syncLog) = None)"
  shows "snd (resolve_conflict e now req st) = st"
  using assms by (auto simp: resolve_conflict_def)

text \<open>
  Claim C9, as stated, at a concrete ledger: the conflict entry of the session above is
  resolved with \<^verbatim>\<open>merge\<close>, and a second resolve-conflict call for the same session and
  item id then sets it to \<^verbatim>\<open>skip\<close>. The route does not look at the entry's current
  resolution, so a resolved entry can be moved again.
\<close>

theorem resolve_conflict_counterexample:
  "map (\<lambda>l. map c_resolution (conflicts l))
     (db_syncLogs (snd (resolve_conflict ex_env 400 (ex_resolve Merge) ex_review_db)))
     = [[Merge]]
   \<and> map (\<lambda>l. map c_resolution (conflicts l))
       (db_syncLogs (snd (resolve_conflict ex_env 500 (ex_resolve Skip)
          (snd (resolve_conflict ex_env 400 (ex_resolve Merge) ex_review_db)))))
     = [[Skip]]"
  by (simp add: resolve_conflict_def ex_review_db_def ex_session_def ex_resolve_def ex_env_def
      new_SyncLog_def resolve_entry_def Let_def addConflict_def)

text \<open>
  Claim C9, amended. Every conflict entry is created with resolution \<^verbatim>\<open>manual_review\<close>.
  A resolve-conflict call that finds the caller's session by id and, in it, an entry with
  the given item id sets the first such entry to the chosen resolution (with
  \<^verbatim>\<open>resolvedAt\<close>, \<^verbatim>\<open>resolvedBy\<close> and, when supplied, the merged payload), whatever its
  resolution was before. The other entries of the session, its status, errors and
  counters, every other session and the Record Store are as before (session ids being
  unique); what the save recomputes is the session's percentage and \<^verbatim>\<open>updatedAt\<close>. The
  conflicts listing holds only entries in \<^verbatim>\<open>manual_review\<close>, so an entry resolved to any
  other value is no longer listed.
\<close>

theorem resolve_conflict_effect:
  assumes "distinct (map sl_oid (db_syncLogs st))"
    and "find (\<lambda>l. sl_oid l = rc_syncId req \<and> sl_userId l = req_userId e
                    \<and> sl_deviceId l = req_deviceId e) (db_syncLogs st) = Some syncLog"
    and "conflicts syncLog = earlier @ c # later"
    and "list_all (\<lambda>x. c_itemId x \<noteq> rc_conflictItemId req) earlier"
    and "c_itemId c = rc_conflictItemId req"
    and "out = resolve_conflict e now req st"
    and "resolved = c\<lparr>c_resolution := rc_resolution req, c_resolvedAt := Some now,
                      c_resolvedBy := Some (req_userId e),
                      c_mergedVersion := (if truthy (rc_mergedData req) then rc_mergedData req
                                          else c_mergedVersion c)\<rparr>"
  shows
    "(\<forall>itemId dataType conflictType localVersion serverVersion t s.
        map c_resolution (conflicts (addConflict itemId dataType conflictType localVersion
                                       serverVersion t s))
          = map c_resolution (conflicts s) @ [Manual_review])
     \<and> fst out = Conflict_resolved (rc_conflictItemId req) (rc_resolution req)
     \<and> db_activities (snd out) = db_activities st \<and> db_diagnoses (snd out) = db_diagnoses st
     \<and> db_users (snd out) = db_users st \<and> db_next_oid (snd out) = db_next_oid st
     \<and> filter (\<lambda>l. sl_oid l \<noteq> rc_syncId req) (db_syncLogs (snd out))
         = filter (\<lambda>l. sl_oid l \<noteq> rc_syncId req) (db_syncLogs st)
     \<and> (\<exists>saved. filter (\<lambda>l. sl_oid l = rc_syncId req) (db_syncLogs (snd out)) = [saved]
           \<and> conflicts saved = earlier @ resolved # later
           \<and> status saved = status syncLog \<and> errors saved = errors syncLog
           \<and> progress saved = recompute_percentage (progress syncLog)
           \<and> sl_userId saved = sl_userId syncLog \<and> sl_deviceId saved = sl_deviceId syncLog)
     \<and> list_all (\<lambda>lc. c_resolution (lc_conflict lc) = Manual_review)
          (get_conflicts e page limit (snd out))
     \<and> (rc_resolution req \<noteq> Manual_review \<longrightarrow>
          list_all (\<lambda>lc. lc_conflict lc \<noteq> resolved) (get_conflicts e page limit (snd out)))"
proof -
  let ?P = "\<lambda>x. c_itemId x = rc_conflictItemId req"
  define saved where "saved = save now (syncLog\<lparr>conflicts :=
      update_first ?P (resolve_entry e now req) (conflicts syncLog)\<rparr>)"
  have found: "find ?P (conflicts syncLog) = Some c"
    and upd: "update_first ?P (resolve_entry e now req) (conflicts syncLog)
                = earlier @ resolve_entry e now req c # later"
    using find_first_match [where P = ?P and before = earlier and c = c and rest = later]
      assms(4,5) by (simp_all add: assms(3))
  have res: "resolve_entry e now req c = resolved"
    by (simp add: resolve_entry_def assms(7))
  have out: "out = (Conflict_resolved (rc_conflictItemId req) (rc_resolution req),
                    st\<lparr>db_syncLogs := map (\<lambda>l. if sl_oid l = sl_oid saved then saved else l)
                                           (db_syncLogs st)\<rparr>)"
    by (simp add: assms(6) resolve_conflict_def assms(2) found Let_def saved_def)
  have mem: "syncLog \<in> set (db_syncLogs st)" and key: "sl_oid syncLog = rc_syncId req"
    using assms(2) by (auto simp: find_Some_iff)
  have skey: "sl_oid saved = rc_syncId req"
    by (simp add: saved_def key)
  have c0: "\<forall>itemId dataType conflictType localVersion serverVersion t s.
        map c_resolution (conflicts (addConflict itemId dataType conflictType localVersion
                                       serverVersion t s))
          = map c_resolution (conflicts s) @ [Manual_review]"
    by simp
  have c1: "fst out = Conflict_resolved (rc_conflictItemId req) (rc_resolution req)"
    "db_activities (snd out) = db_activities st" "db_diagnoses (snd out) = db_diagnoses st"
    "db_users (snd out) = db_users st" "db_next_oid (snd out) = db_next_oid st"
    by (simp_all add: out)
  have c2: "filter (\<lambda>l. sl_oid l \<noteq> rc_syncId req) (db_syncLogs (snd out))
         = filter (\<lambda>l. sl_oid l \<noteq> rc_syncId req) (db_syncLogs st)"
    using filter_replace_others [of sl_oid saved "rc_syncId req" "db_syncLogs st"] skey
    by (simp add: out)
  have c3a: "filter (\<lambda>l. sl_oid l = rc_syncId req) (db_syncLogs (snd out)) = [saved]"
    using filter_replace_by_key [OF assms(1) mem key skey] by (simp add: out skey)
  have c3b: "conflicts saved = earlier @ resolved # later"
    "status saved = status syncLog" "errors saved = errors syncLog"
    "progress saved = recompute_percentage (progress syncLog)"
    "sl_userId saved = sl_userId syncLog" "sl_deviceId saved = sl_deviceId syncLog"
    by (simp_all add: saved_def upd res)
  have c3: "\<exists>saved. filter (\<lambda>l. sl_oid l = rc_syncId req) (db_syncLogs (snd out)) = [saved]
           \<and> conflicts saved = earlier @ resolved # later
           \<and> status saved = status syncLog \<and> errors saved = errors syncLog
           \<and> progress saved = recompute_percentage (progress syncLog)
           \<and> sl_userId saved = sl_userId syncLog \<and> sl_deviceId saved = sl_deviceId syncLog"
    using c3a c3b by blast
  have c4: "list_all (\<lambda>lc. c_resolution (lc_conflict lc) = Manual_review)
          (get_conflicts e page limit (snd out))"
    by (rule get_conflicts_all_unresolved)
  have c5: "rc_resolution req \<noteq> Manual_review \<longrightarrow>
          list_all (\<lambda>lc. lc_conflict lc \<noteq> resolved) (get_conflicts e page limit (snd out))"
  proof
    assume "rc_resolution req \<noteq> Manual_review"
    then have "c_resolution resolved \<noteq> Manual_review"
      by (simp add: assms(7))
    with c4 show "list_all (\<lambda>lc. lc_conflict lc \<noteq> resolved)
                    (get_conflicts e page limit (snd out))"
      by (auto simp: list_all_iff)
  qed
  from c0 c1 c2 c3 c4 c5 show ?thesis
    by (intro conjI)
qed


theorem resolve_conflict_effect_witness:
  "fst (resolve_conflict ex_env 400 (ex_resolve Merge) ex_review_db)
     = Conflict_resolved (Some ''dx1'') Merge
   \<and> db_diagnoses (snd (resolve_conflict ex_env 400 (ex_resolve Merge) ex_review_db))
     = [ex_stored_diagnosis 250]
   \<and> length (get_conflicts ex_env 1 20 ex_review_db) = 1
   \<and> get_conflicts ex_env 1 20 (snd (resolve_conflict ex_env 400 (ex_resolve Merge) ex_review_db))
     = []"
proof -
  let ?c = "\<lparr>c_itemId = Some ''dx1'', c_dataType = ''diagnoses'',
             c_conflictType = Concurrent_modification, c_resolution = Manual_review,
             c_resolvedAt = None, c_resolvedBy = None,
             c_localVersion = Some (ex_diagnosis_item 200),
             c_serverVersion = Some (ex_stored_diagnosis 250), c_mergedVersion = None\<rparr>"
  have ids: "sl_oid ex_session = 9" "sl_userId ex_session = ''u1''"
    "sl_deviceId ex_session = ''dev1''" "conflicts ex_session = [] @ ?c # []"
    "startedAt ex_session = 300"
    by (simp_all add: ex_session_def addConflict_def new_SyncLog_def ex_env_def)
  have logs: "db_syncLogs ex_review_db = [ex_session]"
    and diags: "db_diagnoses ex_review_db = [ex_stored_diagnosis 250]"
    by (simp_all add: ex_review_db_def)
  have d: "distinct (map sl_oid (db_syncLogs ex_review_db))"
    by (simp add: logs)
  have f: "find (\<lambda>l. sl_oid l = rc_syncId (ex_resolve Merge) \<and> sl_userId l = req_userId ex_env
                    \<and> sl_deviceId l = req_deviceId ex_env) (db_syncLogs ex_review_db)
             = Some ex_session"
    by (simp add: logs ids ex_resolve_def ex_env_def)
  have n: "list_all (\<lambda>x. c_itemId x \<noteq> rc_conflictItemId (ex_resolve Merge)) []"
    by simp
  have k: "c_itemId ?c = rc_conflictItemId (ex_resolve Merge)"
    by (simp add: ex_resolve_def)
  note T = resolve_conflict_effect [OF d f ids(4) n k refl refl, of 400]
  have a: "fst (resolve_conflict ex_env 400 (ex_resolve Merge) ex_review_db)
             = Conflict_resolved (Some ''dx1'') Merge"
    using T [THEN conjunct2, THEN conjunct1] by (simp add: ex_resolve_def)
  have b: "db_diagnoses (snd (resolve_conflict ex_env 400 (ex_resolve Merge) ex_review_db))
             = [ex_stored_diagnosis 250]"
    using T [THEN conjunct2, THEN conjunct2, THEN conjunct2, THEN conjunct1]
    by (simp add: diags)
  have c: "length (get_conflicts ex_env 1 20 ex_review_db) = 1"
    by (simp add: get_conflicts_def logs ids ex_env_def unresolved_def)
  have e: "get_conflicts ex_env 1 20
             (snd (resolve_conflict ex_env 400 (ex_resolve Merge) ex_review_db)) = []"
    by (simp add: get_conflicts_def resolve_conflict_def logs ids ex_env_def ex_resolve_def
        unresolved_def resolve_entry_def Let_def)
  from a b c e show ?thesis
    by (intro conjI)
qed

end
